theory Spec2Isabelle
  imports Main
begin

section \<open>Python values and exceptions\<close>

text \<open>
  Decoded JSON and the dictionaries, lists and strings the agents pass around. A Python
  \<^verbatim>\<open>None\<close> is \<open>JNull\<close>; a dict is its list of items (\<open>map_of\<close> looks a key up).
  Numbers are integers here: no claim reads a number.
\<close>

datatype json =
    JNull
  | JBool bool
  | JNum int
  | JStr string
  | JArr "json list"
  | JObj "(string \<times> json) list"

text \<open>
  The exceptions of the model are instances of Python's \<^verbatim>\<open>Exception\<close>, the class every
  handler of the repository names. \<open>External\<close> is an exception raised by a service or by
  the agent framework, with its message.
\<close>

datatype exn =
    KeyError string
  | IndexError
  | TypeError string
  | AttributeError string
  | External string

text \<open>A text between apostrophes, as \<^verbatim>\<open>repr\<close> and the interpreter's messages write a name.\<close>

definition quoted :: "string \<Rightarrow> string" where
  "quoted s = [CHR 0x27] @ s @ [CHR 0x27]"

text \<open>\<^verbatim>\<open>str(e)\<close>, which is also what \<^verbatim>\<open>f"{e}"\<close> formats.\<close>

fun str_exn :: "exn \<Rightarrow> string" where
  "str_exn (KeyError k) = quoted k"
| "str_exn IndexError = ''list index out of range''"
| "str_exn (TypeError m) = m"
| "str_exn (AttributeError m) = m"
| "str_exn (External m) = m"

text \<open>Truthiness, as \<^verbatim>\<open>if x:\<close> and \<^verbatim>\<open>not x\<close> test it.\<close>

fun truthy :: "json \<Rightarrow> bool" where
  "truthy JNull = False"
| "truthy (JBool b) = b"
| "truthy (JNum n) = (n \<noteq> 0)"
| "truthy (JStr s) = (s \<noteq> [])"
| "truthy (JArr xs) = (xs \<noteq> [])"
| "truthy (JObj d) = (d \<noteq> [])"

text \<open>\<^verbatim>\<open>d.get(k)\<close>, \<^verbatim>\<open>k in d\<close> and \<^verbatim>\<open>d[k]\<close> on a dict.\<close>

definition dict_get :: "(string \<times> json) list \<Rightarrow> string \<Rightarrow> json" where
  "dict_get d k = (case map_of d k of None \<Rightarrow> JNull | Some v \<Rightarrow> v)"

definition has_key :: "(string \<times> json) list \<Rightarrow> string \<Rightarrow> bool" where
  "has_key d k = (map_of d k \<noteq> None)"

definition dict_item :: "(string \<times> json) list \<Rightarrow> string \<Rightarrow> exn + json" where
  "dict_item d k = (case map_of d k of None \<Rightarrow> Inl (KeyError k) | Some v \<Rightarrow> Inr v)"

text \<open>
  \<^verbatim>\<open>x['key']\<close> on a decoded JSON value: only a dict has string keys; a string, a list and
  the scalars raise \<^verbatim>\<open>TypeError\<close>, with the messages of CPython 3.11 and later.
\<close>

fun getitem :: "json \<Rightarrow> string \<Rightarrow> exn + json" where
  "getitem (JObj d) k = dict_item d k"
| "getitem (JStr s) k =
     Inl (TypeError (''string indices must be integers, not '' @ quoted ''str''))"
| "getitem (JArr xs) k = Inl (TypeError ''list indices must be integers or slices, not str'')"
| "getitem JNull k = Inl (TypeError (quoted ''NoneType'' @ '' object is not subscriptable''))"
| "getitem (JBool b) k = Inl (TypeError (quoted ''bool'' @ '' object is not subscriptable''))"
| "getitem (JNum n) k = Inl (TypeError (quoted ''int'' @ '' object is not subscriptable''))"

text \<open>\<^verbatim>\<open>xs[0]\<close> on a list.\<close>

definition first_item :: "'a list \<Rightarrow> exn + 'a" where
  "first_item xs = (case xs of [] \<Rightarrow> Inl IndexError | x # _ \<Rightarrow> Inr x)"

text \<open>\<^verbatim>\<open>xs[-1]\<close> on a list.\<close>

definition last_item :: "'a list \<Rightarrow> exn + 'a" where
  "last_item xs = (if xs = [] then Inl IndexError else Inr (last xs))"

section \<open>The invocation client and the delegation tools\<close>

text \<open>
  What the services outside the repository answer during one delegation call: the
  parameter store (\<^verbatim>\<open>ssm.get_parameter\<close>, reduced to the value it returns), the agent
  runtime (\<^verbatim>\<open>invoke_agent_runtime\<close>: ARN, qualifier and the payload before
  \<^verbatim>\<open>json.dumps\<close>, answering the decoded body text) and \<^verbatim>\<open>json.loads\<close>. Each may raise.
\<close>

record remote =
  ssm_get_parameter :: "string \<Rightarrow> exn + string"
  invoke_agent_runtime :: "string \<Rightarrow> string \<Rightarrow> json \<Rightarrow> exn + string"
  json_loads :: "string \<Rightarrow> exn + json"

text \<open>
  invoke\_agent\_utils.py: \<^verbatim>\<open>invoke_agent_with_boto3(agent_arn, user_query)\<close>. The basic
  orchestrator imports the function of the same name; the file beside the orchestrator
  with memory is the one among the sources, and is taken for both.
\<close>

definition invoke_agent_with_boto3 :: "remote \<Rightarrow> string \<Rightarrow> json \<Rightarrow> exn + string" where
  "invoke_agent_with_boto3 R agent_arn user_query =
     invoke_agent_runtime R agent_arn ''DEFAULT'' (JObj [(''prompt'', user_query)])"

text \<open>game\_analyst\_agent.py (with memory): \<^verbatim>\<open>get_agent_arn(agent_name)\<close>.\<close>

definition get_agent_arn :: "remote \<Rightarrow> string \<Rightarrow> exn + string" where
  "get_agent_arn R agent_name = ssm_get_parameter R (''/agents/'' @ agent_name @ ''_arn'')"

text \<open>
  game\_analyst\_agent.py (basic): the handler calls \<^verbatim>\<open>logger.exception\<close>, and \<^verbatim>\<open>logger\<close>
  is the result of \<^verbatim>\<open>setLevel\<close>, that is \<^verbatim>\<open>None\<close>: the handler itself raises
  \<^verbatim>\<open>AttributeError\<close> before it re-raises.
\<close>

definition get_agent_arn_basic :: "remote \<Rightarrow> string \<Rightarrow> exn + string" where
  "get_agent_arn_basic R agent_name =
     (case ssm_get_parameter R (''/agents/'' @ agent_name @ ''_arn_no_memories'') of
        Inl err \<Rightarrow>
          Inl (AttributeError
                 (quoted ''NoneType'' @ '' object has no attribute '' @ quoted ''exception''))
      | Inr v \<Rightarrow> Inr v)"

text \<open>
  The body the three delegation tools share, the module-level list \<^verbatim>\<open>toolmetrics\<close> passed
  in and returned:
  \<^verbatim>\<open>
    arn = get_agent_arn(name)
    response = json.loads(invoke_agent_with_boto3(arn, user_query=payload))
    toolmetrics.append(response['metrics'])
    return response['response']
  \<close>
  The result is the list after the call and what the call did: \<open>Inr\<close> the value returned
  to the framework, \<open>Inl\<close> the exception that left the tool.
\<close>

definition delegate ::
  "(remote \<Rightarrow> string \<Rightarrow> exn + string) \<Rightarrow> string \<Rightarrow> remote \<Rightarrow> json list \<Rightarrow> json
     \<Rightarrow> json list \<times> (exn + json)" where
  "delegate lookup agent_name R toolmetrics payload =
     (case lookup R agent_name of
        Inl e \<Rightarrow> (toolmetrics, Inl e)
      | Inr agent_arn \<Rightarrow>
     (case invoke_agent_with_boto3 R agent_arn payload of
        Inl e \<Rightarrow> (toolmetrics, Inl e)
      | Inr body \<Rightarrow>
     (case json_loads R body of
        Inl e \<Rightarrow> (toolmetrics, Inl e)
      | Inr response \<Rightarrow>
     (case getitem response ''metrics'' of
        Inl e \<Rightarrow> (toolmetrics, Inl e)
      | Inr m \<Rightarrow>
     (case getitem response ''response'' of
        Inl e \<Rightarrow> (toolmetrics @ [m], Inl e)
      | Inr r \<Rightarrow> (toolmetrics @ [m], Inr r))))))"

definition get_lore_agent :: "remote \<Rightarrow> json list \<Rightarrow> json \<Rightarrow> json list \<times> (exn + json)" where
  "get_lore_agent = delegate get_agent_arn ''lore_agent''"

definition get_gameplay_agent :: "remote \<Rightarrow> json list \<Rightarrow> json \<Rightarrow> json list \<times> (exn + json)" where
  "get_gameplay_agent = delegate get_agent_arn ''gameplay_agent''"

definition get_strategy_agent :: "remote \<Rightarrow> json list \<Rightarrow> json \<Rightarrow> json list \<times> (exn + json)" where
  "get_strategy_agent = delegate get_agent_arn ''strategy_agent''"

definition get_lore_agent_basic :: "remote \<Rightarrow> json list \<Rightarrow> json \<Rightarrow> json list \<times> (exn + json)" where
  "get_lore_agent_basic = delegate get_agent_arn_basic ''lore_agent''"

definition get_gameplay_agent_basic :: "remote \<Rightarrow> json list \<Rightarrow> json \<Rightarrow> json list \<times> (exn + json)" where
  "get_gameplay_agent_basic = delegate get_agent_arn_basic ''gameplay_agent''"

definition get_strategy_agent_basic :: "remote \<Rightarrow> json list \<Rightarrow> json \<Rightarrow> json list \<times> (exn + json)" where
  "get_strategy_agent_basic = delegate get_agent_arn_basic ''strategy_agent''"

text \<open>
  The two orchestrators (with memory, basic) and the tools each registers; \<open>call_tool\<close>
  is the call of one of them by the framework.
\<close>

datatype variant = WithMemory | Basic

datatype tool = Lore | Gameplay | Strategy

fun call_tool ::
  "variant \<Rightarrow> tool \<Rightarrow> remote \<Rightarrow> json list \<Rightarrow> json \<Rightarrow> json list \<times> (exn + json)" where
  "call_tool WithMemory Lore = get_lore_agent"
| "call_tool WithMemory Gameplay = get_gameplay_agent"
| "call_tool WithMemory Strategy = get_strategy_agent"
| "call_tool Basic Lore = get_lore_agent_basic"
| "call_tool Basic Gameplay = get_gameplay_agent_basic"
| "call_tool Basic Strategy = get_strategy_agent_basic"

fun lookup_of :: "variant \<Rightarrow> remote \<Rightarrow> string \<Rightarrow> exn + string" where
  "lookup_of WithMemory = get_agent_arn"
| "lookup_of Basic = get_agent_arn_basic"

text \<open>The name under which a tool looks its specialist up.\<close>

fun specialist_name :: "tool \<Rightarrow> string" where
  "specialist_name Lore = ''lore_agent''"
| "specialist_name Gameplay = ''gameplay_agent''"
| "specialist_name Strategy = ''strategy_agent''"

text \<open>
  The reply a delegation call decodes, when the lookup, the remote call and the decoding
  all return.
\<close>

definition decoded_reply ::
  "(remote \<Rightarrow> string \<Rightarrow> exn + string) \<Rightarrow> string \<Rightarrow> remote \<Rightarrow> json \<Rightarrow> json option" where
  "decoded_reply lookup name R payload =
     (case lookup R name of
        Inl e \<Rightarrow> None
      | Inr agent_arn \<Rightarrow>
     (case invoke_agent_with_boto3 R agent_arn payload of
        Inl e \<Rightarrow> None
      | Inr body \<Rightarrow>
     (case json_loads R body of Inl e \<Rightarrow> None | Inr response \<Rightarrow> Some response)))"

text \<open>A remote whose specialist answers the body \<open>b\<close>, decoded as \<open>v\<close>.\<close>

definition answering :: "string \<Rightarrow> json \<Rightarrow> remote" where
  "answering b v =
     \<lparr> ssm_get_parameter = (\<lambda>n. Inr (''arn:'' @ n)),
       invoke_agent_runtime = (\<lambda>a q p. Inr b),
       json_loads = (\<lambda>s. if s = b then Inr v else Inl (External ''Expecting value'')) \<rparr>"

section \<open>Strings\<close>

text \<open>
  \<^verbatim>\<open>str.lower\<close>, \<^verbatim>\<open>str.title\<close> and \<^verbatim>\<open>sep.join\<close>, on ASCII text: the roles the memory store
  hands back are ASCII words. \<^verbatim>\<open>title\<close> upper-cases a letter that follows a character
  without case and lower-cases one that follows a letter.
\<close>

definition upper_letters :: string where
  "upper_letters = ''ABCDEFGHIJKLMNOPQRSTUVWXYZ''"

definition lower_letters :: string where
  "lower_letters = ''abcdefghijklmnopqrstuvwxyz''"

definition lower_char :: "char \<Rightarrow> char" where
  "lower_char c = (case map_of (zip upper_letters lower_letters) c of None \<Rightarrow> c | Some d \<Rightarrow> d)"

definition upper_char :: "char \<Rightarrow> char" where
  "upper_char c = (case map_of (zip lower_letters upper_letters) c of None \<Rightarrow> c | Some d \<Rightarrow> d)"

definition is_letter :: "char \<Rightarrow> bool" where
  "is_letter c = (c \<in> set upper_letters \<or> c \<in> set lower_letters)"

definition lower :: "string \<Rightarrow> string" where
  "lower s = map lower_char s"

fun title_from :: "bool \<Rightarrow> string \<Rightarrow> string" where
  "title_from prev_cased [] = []"
| "title_from prev_cased (c # cs) =
     (if is_letter c
      then (if prev_cased then lower_char c else upper_char c) # title_from True cs
      else c # title_from False cs)"

definition title :: "string \<Rightarrow> string" where
  "title s = title_from False s"

fun join :: "string \<Rightarrow> string list \<Rightarrow> string" where
  "join sep [] = []"
| "join sep [x] = x"
| "join sep (x # y # ys) = x @ sep @ join sep (y # ys)"

section \<open>Agents, messages and the memory client\<close>

text \<open>
  A message of the framework's list is a role and a list of content blocks, each block a
  dict (\<^verbatim>\<open>{"text": ...}\<close>, \<^verbatim>\<open>{"toolUse": ...}\<close>, \<^verbatim>\<open>{"toolResult": ...}\<close>). The part of
  an agent the hooks read and write is its system prompt, its state dict and its messages.
\<close>

type_synonym block = "(string \<times> json) list"

record message =
  role :: string
  content :: "block list"

record agent =
  system_prompt :: string
  state :: "(string \<times> json) list"
  messages :: "message list"

text \<open>
  A message of a stored conversation turn, as \<^verbatim>\<open>get_last_k_turns\<close> returns it:
  \<^verbatim>\<open>message['role']\<close> and \<^verbatim>\<open>message['content']['text']\<close>.
\<close>

record turn_message =
  turn_role :: string
  turn_text :: string

text \<open>
  The calls the hooks make to the memory client, with their arguments:
  \<^verbatim>\<open>get_last_k_turns(memory_id, actor_id, session_id, k, branch_name)\<close> and
  \<^verbatim>\<open>create_event(memory_id, actor_id, session_id, messages)\<close>, whose messages are
  (text, role) pairs.
\<close>

datatype mem_op =
    GetLastKTurns string json json nat string
  | CreateEvent string json json "(json \<times> string) list"

text \<open>
  The memory client is outside the repository: what a call answers, or raises, is any
  function of the calls made so far and of the arguments.
\<close>

record memory_client =
  get_last_k_turns ::
    "mem_op list \<Rightarrow> string \<Rightarrow> json \<Rightarrow> json \<Rightarrow> nat \<Rightarrow> string \<Rightarrow> exn + turn_message list list"
  create_event ::
    "mem_op list \<Rightarrow> string \<Rightarrow> json \<Rightarrow> json \<Rightarrow> (json \<times> string) list \<Rightarrow> exn + unit"

text \<open>
  A hook runs on the agent and on the list of calls made to the memory client so far, and
  gives both back with the exception that left it, if one did.
\<close>

type_synonym hook_state = "agent \<times> mem_op list"

text \<open>
  \<^verbatim>\<open>try: body except Exception as e: logger.error(...)\<close>: what the body did stays done,
  the exception is logged and dropped.
\<close>

definition logged_and_dropped :: "hook_state \<times> exn option \<Rightarrow> hook_state \<times> exn option" where
  "logged_and_dropped r = (fst r, None)"

section \<open>memories.py: the short-term hook\<close>

definition history_header :: string where
  "history_header = ''\<newline>\<newline>Recent conversation history:\<newline>''"

definition history_footer :: string where
  "history_footer = ''\<newline>\<newline>Continue the conversation naturally based on this context.''"

text \<open>\<^verbatim>\<open>f"{role.title()}: {content}"\<close> with \<^verbatim>\<open>role = message['role'].lower()\<close>.\<close>

definition format_line :: "turn_message \<Rightarrow> string" where
  "format_line message = title (lower (turn_role message)) @ '': '' @ turn_text message"

text \<open>
  The two nested loops over \<^verbatim>\<open>recent_turns\<close> append one line per message, turn after turn,
  in the order the client returned them.
\<close>

definition context_of :: "turn_message list list \<Rightarrow> string" where
  "context_of recent_turns = join ''\<newline>'' (map format_line (concat recent_turns))"

text \<open>\<^verbatim>\<open>ShortTermMemoryHook.on_agent_initialized\<close>, the body of its \<^verbatim>\<open>try\<close>.\<close>

definition on_agent_initialized_body ::
  "memory_client \<Rightarrow> string \<Rightarrow> hook_state \<Rightarrow> hook_state \<times> exn option" where
  "on_agent_initialized_body client memory_id s =
     (let a = fst s; calls = snd s;
          actor_id = dict_get (state a) ''actor_id'';
          session_id = dict_get (state a) ''session_id''
      in if \<not> truthy actor_id \<or> \<not> truthy session_id then (s, None)
         else
           (let calls' = calls @ [GetLastKTurns memory_id actor_id session_id 5 ''main'']
            in case get_last_k_turns client calls memory_id actor_id session_id 5 ''main'' of
                 Inl e \<Rightarrow> ((a, calls'), Some e)
               | Inr recent_turns \<Rightarrow>
                   if recent_turns \<noteq> []
                   then ((a\<lparr>system_prompt :=
                              system_prompt a @ history_header @ context_of recent_turns
                                @ history_footer\<rparr>, calls'), None)
                   else ((a, calls'), None)))"

definition on_agent_initialized ::
  "memory_client \<Rightarrow> string \<Rightarrow> hook_state \<Rightarrow> hook_state \<times> exn option" where
  "on_agent_initialized client memory_id s =
     logged_and_dropped (on_agent_initialized_body client memory_id s)"

text \<open>
  \<^verbatim>\<open>ShortTermMemoryHook.on_message_added\<close>. The argument of \<^verbatim>\<open>create_event\<close> is evaluated
  before the call: \<^verbatim>\<open>messages[-1]["content"][0]["text"]\<close>, then \<^verbatim>\<open>messages[-1]["role"]\<close>.
\<close>

definition on_message_added_body ::
  "memory_client \<Rightarrow> string \<Rightarrow> hook_state \<Rightarrow> hook_state \<times> exn option" where
  "on_message_added_body client memory_id s =
     (let a = fst s; calls = snd s;
          actor_id = dict_get (state a) ''actor_id'';
          session_id = dict_get (state a) ''session_id''
      in if \<not> truthy actor_id \<or> \<not> truthy session_id then (s, None)
         else
           (case last_item (messages a) of
              Inl e \<Rightarrow> (s, Some e)
            | Inr msg \<Rightarrow>
           (case first_item (content msg) of
              Inl e \<Rightarrow> (s, Some e)
            | Inr blk \<Rightarrow>
           (case dict_item blk ''text'' of
              Inl e \<Rightarrow> (s, Some e)
            | Inr txt \<Rightarrow>
                (let entries = [(txt, role msg)];
                     calls' = calls @ [CreateEvent memory_id actor_id session_id entries]
                 in case create_event client calls memory_id actor_id session_id entries of
                      Inl e \<Rightarrow> ((a, calls'), Some e)
                    | Inr u \<Rightarrow> ((a, calls'), None))))))"

definition on_message_added ::
  "memory_client \<Rightarrow> string \<Rightarrow> hook_state \<Rightarrow> hook_state \<times> exn option" where
  "on_message_added client memory_id s =
     logged_and_dropped (on_message_added_body client memory_id s)"

section \<open>memories.py: the long-term hook\<close>

text \<open>
  The loop of \<^verbatim>\<open>save_memories\<close> over \<^verbatim>\<open>reversed(messages)\<close>, on the pair
  (\<^verbatim>\<open>user_msg\<close>, \<^verbatim>\<open>assistant_msg\<close>); the \<^verbatim>\<open>break\<close> is the branch that does not recurse.
  \<^verbatim>\<open>
    if not msg.get("content") or len(msg["content"]) == 0: continue
    if msg["role"] == "assistant" and not assistant_msg:
        assistant_msg = msg["content"][0].get("text")
    elif msg["role"] == "user" and not user_msg:
        if "toolResult" not in msg["content"][0]:
            user_msg = msg["content"][0].get("text")
        if user_msg: break
  \<close>
\<close>

fun scan :: "message list \<Rightarrow> json \<times> json \<Rightarrow> json \<times> json" where
  "scan [] (user_msg, assistant_msg) = (user_msg, assistant_msg)"
| "scan (msg # rest) (user_msg, assistant_msg) =
     (if content msg = [] \<or> length (content msg) = 0 then scan rest (user_msg, assistant_msg)
      else if role msg = ''assistant'' \<and> \<not> truthy assistant_msg
        then scan rest (user_msg, dict_get (hd (content msg)) ''text'')
      else if role msg = ''user'' \<and> \<not> truthy user_msg
        then (let user_msg' =
                    (if \<not> has_key (hd (content msg)) ''toolResult''
                     then dict_get (hd (content msg)) ''text'' else user_msg)
              in if truthy user_msg' then (user_msg', assistant_msg)
                 else scan rest (user_msg', assistant_msg))
      else scan rest (user_msg, assistant_msg))"

text \<open>\<^verbatim>\<open>LTMemoryHookProvider.save_memories\<close>, the body of its \<^verbatim>\<open>try\<close>.\<close>

definition save_memories_body ::
  "memory_client \<Rightarrow> string \<Rightarrow> hook_state \<Rightarrow> hook_state \<times> exn option" where
  "save_memories_body client memory_id s =
     (let a = fst s; calls = snd s
      in if length (messages a) \<ge> 2
         then
           (let found = scan (rev (messages a)) (JNull, JNull);
                user_msg = fst found; assistant_msg = snd found
            in if truthy user_msg \<and> truthy assistant_msg
               then
                 (let actor_id = dict_get (state a) ''actor_id'';
                      session_id = dict_get (state a) ''session_id''
                  in if \<not> truthy actor_id \<or> \<not> truthy session_id then (s, None)
                     else
                       (let entries = [(user_msg, ''USER''), (assistant_msg, ''ASSISTANT'')];
                            calls' = calls @ [CreateEvent memory_id actor_id session_id entries]
                        in case create_event client calls memory_id actor_id session_id entries of
                             Inl e \<Rightarrow> ((a, calls'), Some e)
                           | Inr u \<Rightarrow> ((a, calls'), None)))
               else (s, None))
         else (s, None))"

definition save_memories ::
  "memory_client \<Rightarrow> string \<Rightarrow> hook_state \<Rightarrow> hook_state \<times> exn option" where
  "save_memories client memory_id s =
     logged_and_dropped (save_memories_body client memory_id s)"

section \<open>The agent framework, seen from the repository\<close>

text \<open>
  The framework and the language model are outside the repository. A call
  \<^verbatim>\<open>agent(user_input)\<close> is, for the repository, the sequence of callbacks the framework
  makes into its code, and how the call ends: a message appended to \<^verbatim>\<open>agent.messages\<close>
  (the framework then fires \<^verbatim>\<open>MessageAddedEvent\<close>), the end of the invocation
  (\<^verbatim>\<open>AfterInvocationEvent\<close>), the call of a delegation tool with the argument the model
  chose and what the remote services answer then. The framework turns an exception of a
  tool into an error result for the model and goes on; an exception of a hook leaves the
  call.
\<close>

datatype event =
    MessageAdded message
  | AfterInvocation
  | ToolCall tool json remote

text \<open>
  The result of a call that returns: \<^verbatim>\<open>response.message\<close> and
  \<^verbatim>\<open>response.metrics.get_summary()\<close>.
\<close>

record agent_result =
  result_message :: message
  metrics_summary :: json

text \<open>The arguments of \<^verbatim>\<open>AgentCoreMemoryToolProvider\<close>, whose tools read long-term memory.\<close>

record provider =
  provider_memory_id :: string
  provider_actor_id :: string
  provider_session_id :: "string option"
  provider_namespace :: string

text \<open>
  What the constructors and calls outside the repository do during one invocation of an
  entrypoint: \<^verbatim>\<open>MemoryClient(...)\<close>, \<^verbatim>\<open>AgentCoreMemoryToolProvider(...)\<close>, \<^verbatim>\<open>Agent(...)\<close>
  before it fires \<^verbatim>\<open>AgentInitializedEvent\<close>, the call of the agent (a function of what the
  agent was built from), entering \<^verbatim>\<open>with kb_client\<close> and \<^verbatim>\<open>list_tools_sync()\<close>.
\<close>

record services =
  new_memory_client :: "exn + memory_client"
  new_memory_provider :: "provider \<Rightarrow> exn option"
  new_agent :: "exn option"
  agent_call :: "provider option \<Rightarrow> agent \<Rightarrow> string option \<Rightarrow> event list \<times> (exn + agent_result)"
  mcp_start :: "exn option"
  list_tools_sync :: "exn option"

text \<open>
  What outlives an invocation in the process and outside it: the module-level list
  \<^verbatim>\<open>toolmetrics\<close>, the calls made to the memory client, the number of knowledge-base
  clients created so far and the connections started and stopped.
\<close>

datatype kb_event = Start nat | Stop nat

record world =
  global_toolmetrics :: "json list"
  memory_calls :: "mem_op list"
  kb_clients :: nat
  kb_events :: "kb_event list"

text \<open>The callbacks run in order; the first exception that leaves one ends the call.\<close>

fun run_events :: "(event \<Rightarrow> 's \<Rightarrow> 's \<times> exn option) \<Rightarrow> event list \<Rightarrow> 's \<Rightarrow> 's \<times> exn option" where
  "run_events step [] s = (s, None)"
| "run_events step (ev # evs) s =
     (case step ev s of
        (s', Some e) \<Rightarrow> (s', Some e)
      | (s', None) \<Rightarrow> run_events step evs s')"

text \<open>\<^verbatim>\<open>payload.get(key, default)\<close>; the payload is a dict of strings.\<close>

definition get_default :: "(string \<times> string) list \<Rightarrow> string \<Rightarrow> string \<Rightarrow> string" where
  "get_default payload k d = (case map_of payload k of None \<Rightarrow> d | Some v \<Rightarrow> v)"

text \<open>\<^verbatim>\<open>response.message['content'][0]['text']\<close>.\<close>

definition answer_text :: "agent_result \<Rightarrow> exn + json" where
  "answer_text response =
     (case first_item (content (result_message response)) of
        Inl e \<Rightarrow> Inl e
      | Inr blk \<Rightarrow> dict_item blk ''text'')"

text \<open>The state dict an entrypoint gives its agent.\<close>

definition agent_state :: "string \<Rightarrow> string option \<Rightarrow> (string \<times> json) list" where
  "agent_state actor session_id =
     [(''actor_id'', JStr actor),
      (''session_id'', (case session_id of None \<Rightarrow> JNull | Some sid \<Rightarrow> JStr sid))]"

section \<open>game\_analyst\_agent.py (with memory)\<close>

definition user_prefs_memory_id :: string where
  "user_prefs_memory_id = ''GameAnalystUserPrefs_37d1e66e-Ytm1ni3Db5''"

definition session_memory_id :: string where
  "session_memory_id = ''GameAnalystShortTermMemory_6502d2be-wJVopQEE4H''"

text \<open>
  The callbacks the orchestrator registers: \<^verbatim>\<open>hooks=[LTM(user_prefs), STM(session)]\<close> and
  the three tools. The state is \<^verbatim>\<open>toolmetrics\<close> with the agent and the memory calls.
\<close>

fun analyst_step ::
  "memory_client \<Rightarrow> event \<Rightarrow> json list \<times> hook_state \<Rightarrow> (json list \<times> hook_state) \<times> exn option" where
  "analyst_step client (MessageAdded m) (tm, (a, calls)) =
     (case on_message_added client session_memory_id (a\<lparr>messages := messages a @ [m]\<rparr>, calls) of
        (s', x) \<Rightarrow> ((tm, s'), x))"
| "analyst_step client AfterInvocation (tm, s) =
     (case save_memories client user_prefs_memory_id s of (s', x) \<Rightarrow> ((tm, s'), x))"
| "analyst_step client (ToolCall t payload R) (tm, s) =
     ((fst (call_tool WithMemory t R tm payload), s), None)"

text \<open>
  Lines 142 to 173 of \<^verbatim>\<open>game_analyst_agent(payload, context)\<close>, before its \<^verbatim>\<open>try\<close>: the
  reset of \<^verbatim>\<open>toolmetrics\<close>, the memory client, the provider and the agent, whose construction
  fires \<^verbatim>\<open>AgentInitializedEvent\<close>. An exception here leaves the entrypoint. The system prompt
  \<^verbatim>\<open>GAME_ANALYST_PROMPT\<close> is the argument \<open>prompt\<close>.
\<close>

definition game_analyst_agent_setup ::
  "string \<Rightarrow> services \<Rightarrow> world \<Rightarrow> (string \<times> string) list \<Rightarrow> string option
     \<Rightarrow> world \<times> (exn + memory_client \<times> provider \<times> agent)" where
  "game_analyst_agent_setup prompt E w payload session_id =
     (let w0 = w\<lparr>global_toolmetrics := []\<rparr>;
          user_id = get_default payload ''user_id'' ''default-user''
      in case new_memory_client E of
           Inl e \<Rightarrow> (w0, Inl e)
         | Inr client \<Rightarrow>
             (let user_prefs_memory_provider =
                    \<lparr> provider_memory_id = user_prefs_memory_id,
                      provider_actor_id = user_id,
                      provider_session_id = session_id,
                      provider_namespace = ''analyst/'' @ user_id @ ''/preferences'' \<rparr>
              in case new_memory_provider E user_prefs_memory_provider of
                   Some e \<Rightarrow> (w0, Inl e)
                 | None \<Rightarrow>
                     (case new_agent E of
                        Some e \<Rightarrow> (w0, Inl e)
                      | None \<Rightarrow>
                          (case on_agent_initialized client session_memory_id
                                  (\<lparr> system_prompt = prompt,
                                     state = agent_state user_id session_id,
                                     messages = [] \<rparr>, memory_calls w0) of
                             ((a, calls), Some e) \<Rightarrow> (w0\<lparr>memory_calls := calls\<rparr>, Inl e)
                           | ((a, calls), None) \<Rightarrow>
                               (w0\<lparr>memory_calls := calls\<rparr>,
                                Inr (client, user_prefs_memory_provider, a))))))"

text \<open>
  The \<^verbatim>\<open>try\<close> of the entrypoint, on the world, the memory client, the provider and the
  agent the lines before it made:
  \<^verbatim>\<open>
    try:
        response = agent(user_input)
        return {"response": response.message['content'][0]['text'],
                "metrics": response.metrics.get_summary(),
                "toolMetrics": toolmetrics}
    except Exception as e:
        return {"error": str(e)}
  \<close>
\<close>

definition game_analyst_agent_try ::
  "services \<Rightarrow> world \<Rightarrow> memory_client \<Rightarrow> provider \<Rightarrow> agent \<Rightarrow> (string \<times> string) list
     \<Rightarrow> world \<times> (exn + json)" where
  "game_analyst_agent_try E w1 client prov a payload =
     (let user_input = map_of payload ''prompt'';
          called = agent_call E (Some prov) a user_input;
          ran = run_events (analyst_step client) (fst called)
                  (global_toolmetrics w1, (a, memory_calls w1));
          toolmetrics = fst (fst ran);
          w2 = w1\<lparr>global_toolmetrics := toolmetrics, memory_calls := snd (snd (fst ran))\<rparr>;
          response = (case snd ran of Some e \<Rightarrow> Inl e | None \<Rightarrow> snd called)
      in case response of
           Inl e \<Rightarrow> (w2, Inr (JObj [(''error'', JStr (str_exn e))]))
         | Inr res \<Rightarrow>
             (case answer_text res of
                Inl e \<Rightarrow> (w2, Inr (JObj [(''error'', JStr (str_exn e))]))
              | Inr txt \<Rightarrow>
                  (w2, Inr (JObj [(''response'', txt),
                                  (''metrics'', metrics_summary res),
                                  (''toolMetrics'', JArr toolmetrics)]))))"

text \<open>The entrypoint \<^verbatim>\<open>game_analyst_agent(payload, context)\<close>.\<close>

definition game_analyst_agent ::
  "string \<Rightarrow> services \<Rightarrow> world \<Rightarrow> (string \<times> string) list \<Rightarrow> string option
     \<Rightarrow> world \<times> (exn + json)" where
  "game_analyst_agent prompt E w payload session_id =
     (case game_analyst_agent_setup prompt E w payload session_id of
        (w1, Inl e) \<Rightarrow> (w1, Inl e)
      | (w1, Inr (client, prov, a)) \<Rightarrow> game_analyst_agent_try E w1 client prov a payload)"

section \<open>game\_analyst\_agent.py (basic)\<close>

text \<open>No hook is registered: only a tool call runs code of the repository.\<close>

fun analyst_basic_step :: "event \<Rightarrow> json list \<Rightarrow> json list \<times> exn option" where
  "analyst_basic_step (ToolCall t payload R) tm = (fst (call_tool Basic t R tm payload), None)"
| "analyst_basic_step (MessageAdded m) tm = (tm, None)"
| "analyst_basic_step AfterInvocation tm = (tm, None)"

definition game_analyst_agent_basic ::
  "string \<Rightarrow> services \<Rightarrow> world \<Rightarrow> (string \<times> string) list \<Rightarrow> world \<times> (exn + json)" where
  "game_analyst_agent_basic prompt E w payload =
     (let w0 = w\<lparr>global_toolmetrics := []\<rparr>
      in case new_agent E of
           Some e \<Rightarrow> (w0, Inl e)
         | None \<Rightarrow>
             (let a = \<lparr> system_prompt = prompt, state = [], messages = [] \<rparr>;
                  user_input = map_of payload ''prompt'';
                  called = agent_call E None a user_input;
                  ran = run_events analyst_basic_step (fst called) (global_toolmetrics w0);
                  toolmetrics = fst ran;
                  w2 = w0\<lparr>global_toolmetrics := toolmetrics\<rparr>;
                  response = (case snd ran of Some e \<Rightarrow> Inl e | None \<Rightarrow> snd called)
              in case response of
                   Inl e \<Rightarrow> (w2, Inr (JStr (''error '' @ str_exn e)))
                 | Inr res \<Rightarrow>
                     (case answer_text res of
                        Inl e \<Rightarrow> (w2, Inr (JStr (''error '' @ str_exn e)))
                      | Inr txt \<Rightarrow>
                          (w2, Inr (JObj [(''response'', txt),
                                          (''metrics'', metrics_summary res),
                                          (''toolMetrics'', JArr toolmetrics)])))))"

section \<open>The specialists\<close>

text \<open>
  \<^verbatim>\<open>kb_client = MCPClient(...)\<close> makes a new client, numbered by the count of clients made
  so far; nothing is connected yet.
\<close>

definition new_kb_client :: "world \<Rightarrow> nat \<times> world" where
  "new_kb_client w = (kb_clients w, w\<lparr>kb_clients := Suc (kb_clients w)\<rparr>)"

text \<open>
  \<^verbatim>\<open>with kb_client: body\<close>. Entering starts the connection of this client, or raises and
  leaves none; the body runs; leaving stops the connection, whether the body returned
  (also by \<^verbatim>\<open>return\<close>) or raised, and the body's exception goes on.
\<close>

definition with_kb_client ::
  "services \<Rightarrow> nat \<Rightarrow> world \<Rightarrow> (world \<Rightarrow> world \<times> (exn + json)) \<Rightarrow> world \<times> (exn + json)" where
  "with_kb_client E kb w body =
     (case mcp_start E of
        Some e \<Rightarrow> (w, Inl e)
      | None \<Rightarrow>
          (let finished = body (w\<lparr>kb_events := kb_events w @ [Start kb]\<rparr>)
           in ((fst finished)\<lparr>kb_events := kb_events (fst finished) @ [Stop kb]\<rparr>,
               snd finished)))"

text \<open>\<^verbatim>\<open>except Exception as e: return f"error {e}"\<close>.\<close>

definition error_string :: "world \<times> (exn + json) \<Rightarrow> world \<times> (exn + json)" where
  "error_string r =
     (case snd r of
        Inl e \<Rightarrow> (fst r, Inr (JStr (''error '' @ str_exn e)))
      | Inr v \<Rightarrow> (fst r, Inr v))"

text \<open>
  A specialist with memory registers \<^verbatim>\<open>hooks=[LTMemoryHookProvider(project_memory_id,
  client)]\<close>: the framework appends the messages, and \<^verbatim>\<open>save_memories\<close> runs after the
  invocation. No delegation tool is registered with a specialist. The class is the one of
  the strategy agent's memories.py, the same text as the orchestrator's; the lore and the
  gameplay agent import it from a memories.py of their own that is not among the
  sources, and the same class is taken for them.
\<close>

fun specialist_step ::
  "memory_client \<Rightarrow> string \<Rightarrow> event \<Rightarrow> hook_state \<Rightarrow> hook_state \<times> exn option" where
  "specialist_step client memory_id (MessageAdded m) (a, calls) =
     ((a\<lparr>messages := messages a @ [m]\<rparr>, calls), None)"
| "specialist_step client memory_id AfterInvocation s = save_memories client memory_id s"
| "specialist_step client memory_id (ToolCall t payload R) s = (s, None)"

text \<open>
  The block under \<^verbatim>\<open>with kb_client\<close> in the three specialists with memory:
  \<^verbatim>\<open>
    kb_tools = kb_client.list_tools_sync()
    all_tools = kb_tools + project_memory_provider.tools
    agent = Agent(tools=all_tools, model=bedrock_model, hooks=[project_memory_hooks],
                  system_prompt=..., state={"actor_id": project_id, "session_id": session_id})
    user_input = payload.get("prompt")
    response = agent(user_input)
    return {"response": response.message['content'][0]['text'],
            "metrics": response.metrics.get_summary()}
  \<close>
\<close>

definition memory_turn ::
  "string \<Rightarrow> services \<Rightarrow> memory_client \<Rightarrow> provider \<Rightarrow> string \<Rightarrow> string option
     \<Rightarrow> (string \<times> string) list \<Rightarrow> world \<Rightarrow> world \<times> (exn + json)" where
  "memory_turn prompt E client prov project_id session_id payload w =
     (case list_tools_sync E of
        Some e \<Rightarrow> (w, Inl e)
      | None \<Rightarrow>
     (case new_agent E of
        Some e \<Rightarrow> (w, Inl e)
      | None \<Rightarrow>
          (let a = \<lparr> system_prompt = prompt,
                     state = agent_state project_id session_id,
                     messages = [] \<rparr>;
               user_input = map_of payload ''prompt'';
               called = agent_call E (Some prov) a user_input;
               ran = run_events (specialist_step client (provider_memory_id prov)) (fst called)
                       (a, memory_calls w);
               w2 = w\<lparr>memory_calls := snd (fst ran)\<rparr>;
               response = (case snd ran of Some e \<Rightarrow> Inl e | None \<Rightarrow> snd called)
           in case response of
                Inl e \<Rightarrow> (w2, Inl e)
              | Inr res \<Rightarrow>
                  (case answer_text res of
                     Inl e \<Rightarrow> (w2, Inl e)
                   | Inr txt \<Rightarrow>
                       (w2, Inr (JObj [(''response'', txt),
                                       (''metrics'', metrics_summary res)]))))))"

text \<open>
  The long-term memory each specialist with memory names: the memory id, the actor and the
  namespace it gives \<^verbatim>\<open>AgentCoreMemoryToolProvider\<close>.
\<close>

definition lore_provider :: "(string \<times> string) list \<Rightarrow> string option \<Rightarrow> provider" where
  "lore_provider payload session_id =
     (let project_memory_id = ''Project_lore_78f09820-iidpdZ4wfj'';
          user_id = get_default payload ''user_id'' ''default-user'';
          project_id = get_default payload ''project_id'' ''new-world-aternum'';
          lore_namespace = ''project/'' @ project_id @ ''/semantic''
      in \<lparr> provider_memory_id = project_memory_id,
           provider_actor_id = project_id,
           provider_session_id = session_id,
           provider_namespace = lore_namespace \<rparr>)"

definition strategy_provider :: "(string \<times> string) list \<Rightarrow> string option \<Rightarrow> provider" where
  "strategy_provider payload session_id =
     (let project_memory_id = ''Project_strategy_3443cbe2-0vOWxMHl4Y'';
          user_id = get_default payload ''user_id'' ''default-user'';
          project_id = get_default payload ''project_id'' ''new-world-aternum'';
          strategy_namespace = ''project/'' @ project_id @ ''/semantic''
      in \<lparr> provider_memory_id = project_memory_id,
           provider_actor_id = project_id,
           provider_session_id = session_id,
           provider_namespace = strategy_namespace \<rparr>)"

definition gameplay_provider :: "(string \<times> string) list \<Rightarrow> string option \<Rightarrow> provider" where
  "gameplay_provider payload session_id =
     (let project_memory_id = ''Project_gameplay_597edeef-XOt1OmF0Zd'';
          project_id = get_default payload ''project_id'' ''new-world-aternum'';
          gameplay_namespace = ''project/gameplay/'' @ project_id @ ''/semantic''
      in \<lparr> provider_memory_id = project_memory_id,
           provider_actor_id = project_id,
           provider_session_id = session_id,
           provider_namespace = gameplay_namespace \<rparr>)"

text \<open>
  lore\_agent.py (with memory): the client of the knowledge base is made first, then the
  memory client and the provider, then the \<^verbatim>\<open>with\<close> block; all of it under the \<^verbatim>\<open>try\<close>.
\<close>

definition lore_agent ::
  "string \<Rightarrow> services \<Rightarrow> world \<Rightarrow> (string \<times> string) list \<Rightarrow> string option
     \<Rightarrow> world \<times> (exn + json)" where
  "lore_agent prompt E w payload session_id =
     error_string
       (let made = new_kb_client w; kb_client = fst made; w1 = snd made
        in case new_memory_client E of
             Inl e \<Rightarrow> (w1, Inl e)
           | Inr client \<Rightarrow>
               (let project_memory_provider = lore_provider payload session_id
                in case new_memory_provider E project_memory_provider of
                     Some e \<Rightarrow> (w1, Inl e)
                   | None \<Rightarrow>
                       with_kb_client E kb_client w1
                         (memory_turn prompt E client project_memory_provider
                            (get_default payload ''project_id'' ''new-world-aternum'')
                            session_id payload)))"

text \<open>strategy\_agent.py (with memory): as the lore agent, with its own memory.\<close>

definition strategy_agent ::
  "string \<Rightarrow> services \<Rightarrow> world \<Rightarrow> (string \<times> string) list \<Rightarrow> string option
     \<Rightarrow> world \<times> (exn + json)" where
  "strategy_agent prompt E w payload session_id =
     error_string
       (let made = new_kb_client w; kb_client = fst made; w1 = snd made
        in case new_memory_client E of
             Inl e \<Rightarrow> (w1, Inl e)
           | Inr client \<Rightarrow>
               (let project_memory_provider = strategy_provider payload session_id
                in case new_memory_provider E project_memory_provider of
                     Some e \<Rightarrow> (w1, Inl e)
                   | None \<Rightarrow>
                       with_kb_client E kb_client w1
                         (memory_turn prompt E client project_memory_provider
                            (get_default payload ''project_id'' ''new-world-aternum'')
                            session_id payload)))"

text \<open>
  gameplay\_agent.py (with memory): the memory client is made first, and \<^verbatim>\<open>user_id\<close> is not
  read.
\<close>

definition gameplay_agent ::
  "string \<Rightarrow> services \<Rightarrow> world \<Rightarrow> (string \<times> string) list \<Rightarrow> string option
     \<Rightarrow> world \<times> (exn + json)" where
  "gameplay_agent prompt E w payload session_id =
     error_string
       (case new_memory_client E of
          Inl e \<Rightarrow> (w, Inl e)
        | Inr client \<Rightarrow>
            (let made = new_kb_client w; kb_client = fst made; w1 = snd made;
                 project_memory_provider = gameplay_provider payload session_id
             in case new_memory_provider E project_memory_provider of
                  Some e \<Rightarrow> (w1, Inl e)
                | None \<Rightarrow>
                    with_kb_client E kb_client w1
                      (memory_turn prompt E client project_memory_provider
                         (get_default payload ''project_id'' ''new-world-aternum'')
                         session_id payload)))"

text \<open>
  The block under \<^verbatim>\<open>with kb_client\<close> in the basic specialists: no hook and no memory. The
  flag tells the lore agent under \<^verbatim>\<open>Kiro building\<close>, which returns the text alone, from
  the agents under \<^verbatim>\<open>Agents/basic-strands-agents\<close>, which return it with the metrics.
\<close>

definition basic_turn ::
  "bool \<Rightarrow> string \<Rightarrow> services \<Rightarrow> (string \<times> string) list \<Rightarrow> world \<Rightarrow> world \<times> (exn + json)" where
  "basic_turn with_metrics prompt E payload w =
     (case list_tools_sync E of
        Some e \<Rightarrow> (w, Inl e)
      | None \<Rightarrow>
     (case new_agent E of
        Some e \<Rightarrow> (w, Inl e)
      | None \<Rightarrow>
          (let a = \<lparr> system_prompt = prompt, state = [], messages = [] \<rparr>;
               user_input = map_of payload ''prompt'';
               called = agent_call E None a user_input
           in case snd called of
                Inl e \<Rightarrow> (w, Inl e)
              | Inr res \<Rightarrow>
                  (case answer_text res of
                     Inl e \<Rightarrow> (w, Inl e)
                   | Inr txt \<Rightarrow>
                       (w, Inr (if with_metrics
                                then JObj [(''response'', txt),
                                           (''metrics'', metrics_summary res)]
                                else txt))))))"

definition basic_specialist ::
  "bool \<Rightarrow> string \<Rightarrow> services \<Rightarrow> world \<Rightarrow> (string \<times> string) list \<Rightarrow> world \<times> (exn + json)" where
  "basic_specialist with_metrics prompt E w payload =
     error_string
       (let made = new_kb_client w; kb_client = fst made; w1 = snd made
        in with_kb_client E kb_client w1 (basic_turn with_metrics prompt E payload))"

definition lore_agent_basic ::
  "string \<Rightarrow> services \<Rightarrow> world \<Rightarrow> (string \<times> string) list \<Rightarrow> world \<times> (exn + json)" where
  "lore_agent_basic = basic_specialist True"

definition gameplay_agent_basic ::
  "string \<Rightarrow> services \<Rightarrow> world \<Rightarrow> (string \<times> string) list \<Rightarrow> world \<times> (exn + json)" where
  "gameplay_agent_basic = basic_specialist True"

definition strategy_agent_basic ::
  "string \<Rightarrow> services \<Rightarrow> world \<Rightarrow> (string \<times> string) list \<Rightarrow> world \<times> (exn + json)" where
  "strategy_agent_basic = basic_specialist True"

definition lore_agent_kiro ::
  "string \<Rightarrow> services \<Rightarrow> world \<Rightarrow> (string \<times> string) list \<Rightarrow> world \<times> (exn + json)" where
  "lore_agent_kiro = basic_specialist False"

section \<open>The claims' vocabulary and concrete inputs\<close>

text \<open>
  A reply is well formed when it is a JSON object with both a \<^verbatim>\<open>metrics\<close> and a
  \<^verbatim>\<open>response\<close> field.
\<close>

definition well_formed_reply :: "json \<Rightarrow> bool" where
  "well_formed_reply response =
     (case response of
        JObj d \<Rightarrow> has_key d ''metrics'' \<and> has_key d ''response''
      | _ \<Rightarrow> False)"

definition q0 :: json where
  "q0 = JStr ''Who founded Aeternum?''"

definition good_reply :: json where
  "good_reply =
     JObj [(''response'', JStr ''The Ancients.''),
           (''metrics'', JObj [(''totalTokens'', JNum 42)])]"

text \<open>
  The name of the parameter that holds the ARN of each tool's specialist, written out for
  the six tools; and a parameter store, an agent runtime and a decoder that answer the
  gameplay tool of the orchestrator with memory on the question \<open>q0\<close>, and raise on
  every other parameter, ARN, qualifier, payload or body.
\<close>

fun arn_parameter :: "variant \<Rightarrow> tool \<Rightarrow> string" where
  "arn_parameter WithMemory Lore = ''/agents/lore_agent_arn''"
| "arn_parameter WithMemory Gameplay = ''/agents/gameplay_agent_arn''"
| "arn_parameter WithMemory Strategy = ''/agents/strategy_agent_arn''"
| "arn_parameter Basic Lore = ''/agents/lore_agent_arn_no_memories''"
| "arn_parameter Basic Gameplay = ''/agents/gameplay_agent_arn_no_memories''"
| "arn_parameter Basic Strategy = ''/agents/strategy_agent_arn_no_memories''"

definition gameplay_remote :: remote where
  "gameplay_remote =
     \<lparr> ssm_get_parameter =
         (\<lambda>n. if n = ''/agents/gameplay_agent_arn'' then Inr ''arn:runtime/gameplay''
              else Inl (External ''ParameterNotFound'')),
       invoke_agent_runtime =
         (\<lambda>a q p. if a = ''arn:runtime/gameplay'' \<and> q = ''DEFAULT''
                      \<and> p = JObj [(''prompt'', q0)]
                   then Inr ''gameplay body''
                   else Inl (External ''ResourceNotFoundException'')),
       json_loads =
         (\<lambda>s. if s = ''gameplay body'' then Inr good_reply
              else Inl (External ''Expecting value'')) \<rparr>"

text \<open>
  The text of the first content block, \<^verbatim>\<open>msg["content"][0].get("text")\<close>, and the two
  kinds of message \<^verbatim>\<open>save_memories\<close> looks for: a user message whose first block is not a
  tool result and carries a text, and an assistant message whose first block carries a
  text.
\<close>

definition first_text :: "message \<Rightarrow> json" where
  "first_text m = dict_get (hd (content m)) ''text''"

definition true_user_message :: "message \<Rightarrow> bool" where
  "true_user_message m =
     (role m = ''user'' \<and> content m \<noteq> [] \<and> \<not> has_key (hd (content m)) ''toolResult''
      \<and> truthy (first_text m))"

definition assistant_reply :: "message \<Rightarrow> bool" where
  "assistant_reply m = (role m = ''assistant'' \<and> content m \<noteq> [] \<and> truthy (first_text m))"

text \<open>
  The pair the amended claim C2 describes: the text of the most recent true user message,
  with the text of the most recent assistant reply among the messages that follow it.
\<close>

definition selected_pair :: "message list \<Rightarrow> (json \<times> json) option" where
  "selected_pair ms =
     (case find true_user_message (rev ms) of
        None \<Rightarrow> None
      | Some u \<Rightarrow>
          (case find assistant_reply (takeWhile (\<lambda>m. \<not> true_user_message m) (rev ms)) of
             None \<Rightarrow> None
           | Some a \<Rightarrow> Some (first_text u, first_text a)))"

definition ids_present :: "agent \<Rightarrow> bool" where
  "ids_present a =
     (truthy (dict_get (state a) ''actor_id'') \<and> truthy (dict_get (state a) ''session_id''))"

text \<open>
  The pair the claim C2 describes as it is written: the most recent user message whose
  content is not a tool result, and the most recent assistant message, wherever they stand
  and whatever their text.
\<close>

definition claimed_user :: "message \<Rightarrow> bool" where
  "claimed_user m =
     (role m = ''user'' \<and> content m \<noteq> [] \<and> \<not> has_key (hd (content m)) ''toolResult'')"

definition claimed_assistant :: "message \<Rightarrow> bool" where
  "claimed_assistant m = (role m = ''assistant'' \<and> content m \<noteq> [])"

definition claimed_pair :: "message list \<Rightarrow> (json \<times> json) option" where
  "claimed_pair ms =
     (case find claimed_user (rev ms) of
        None \<Rightarrow> None
      | Some u \<Rightarrow>
          (case find claimed_assistant (rev ms) of
             None \<Rightarrow> None
           | Some a \<Rightarrow> Some (first_text u, first_text a)))"

definition user_says :: "string \<Rightarrow> message" where
  "user_says t = \<lparr> role = ''user'', content = [[(''text'', JStr t)]] \<rparr>"

definition assistant_says :: "string \<Rightarrow> message" where
  "assistant_says t = \<lparr> role = ''assistant'', content = [[(''text'', JStr t)]] \<rparr>"

definition tool_use :: message where
  "tool_use =
     \<lparr> role = ''assistant'',
       content = [[(''toolUse'', JObj [(''name'', JStr ''get_lore_agent'')])]] \<rparr>"

definition tool_result :: message where
  "tool_result =
     \<lparr> role = ''user'',
       content = [[(''toolResult'',
                    JObj [(''content'', JArr [JObj [(''text'', JStr ''lore'')]])])]] \<rparr>"

definition agent_with :: "message list \<Rightarrow> agent" where
  "agent_with ms =
     \<lparr> system_prompt = ''You are an analyst.'',
       state = agent_state ''alice'' (Some ''s1''),
       messages = ms \<rparr>"

definition quiet_client :: memory_client where
  "quiet_client =
     \<lparr> get_last_k_turns = (\<lambda>calls memory_id actor_id session_id k branch. Inr []),
       create_event = (\<lambda>calls memory_id actor_id session_id entries. Inr ()) \<rparr>"

definition broken_client :: memory_client where
  "broken_client =
     \<lparr> get_last_k_turns =
         (\<lambda>calls memory_id actor_id session_id k branch. Inl (External ''store unavailable'')),
       create_event =
         (\<lambda>calls memory_id actor_id session_id entries. Inl (External ''store unavailable'')) \<rparr>"

text \<open>A services record for an orchestrator whose constructors all succeed.\<close>

definition services_of ::
  "memory_client \<Rightarrow> (provider option \<Rightarrow> agent \<Rightarrow> string option \<Rightarrow> event list \<times> (exn + agent_result))
     \<Rightarrow> services" where
  "services_of client call =
     \<lparr> new_memory_client = Inr client,
       new_memory_provider = (\<lambda>p. None),
       new_agent = None,
       agent_call = call,
       mcp_start = None,
       list_tools_sync = None \<rparr>"

definition answer :: "string \<Rightarrow> agent_result" where
  "answer t = \<lparr> result_message = assistant_says t, metrics_summary = JObj [] \<rparr>"

definition world0 :: world where
  "world0 = \<lparr> global_toolmetrics = [], memory_calls = [], kb_clients = 0, kb_events = [] \<rparr>"

definition anonymous_agent :: "message list \<Rightarrow> agent" where
  "anonymous_agent ms =
     \<lparr> system_prompt = ''You are an analyst.'',
       state = agent_state ''alice'' None,
       messages = ms \<rparr>"

text \<open>A stored turn, five of them in the order they were said, and a client that holds them.\<close>

definition turn_of :: "string \<Rightarrow> turn_message list" where
  "turn_of n =
     [\<lparr> turn_role = ''USER'', turn_text = ''q'' @ n \<rparr>,
      \<lparr> turn_role = ''ASSISTANT'', turn_text = ''a'' @ n \<rparr>]"

definition five_turns :: "turn_message list list" where
  "five_turns = [turn_of ''1'', turn_of ''2'', turn_of ''3'', turn_of ''4'', turn_of ''5'']"

definition history_client :: memory_client where
  "history_client =
     \<lparr> get_last_k_turns =
         (\<lambda>calls memory_id actor_id session_id k branch.
            if actor_id = JStr ''alice'' \<and> session_id = JStr ''s1'' \<and> k = 5
            then Inr five_turns else Inr []),
       create_event = (\<lambda>calls memory_id actor_id session_id entries. Inr ()) \<rparr>"

text \<open>
  A client of a store that holds the same five turns and answers the most recent turn
  first; the system prompt the claim C7 describes for a store that holds the given turns,
  listed from the oldest to the newest; and the system prompt of the agent the orchestrator
  with memory has built when it reaches its \<^verbatim>\<open>try\<close>, if it reaches it.
\<close>

definition newest_first_client :: memory_client where
  "newest_first_client =
     \<lparr> get_last_k_turns =
         (\<lambda>calls memory_id actor_id session_id k branch.
            if actor_id = JStr ''alice'' \<and> session_id = JStr ''s1''
            then Inr (take k (rev five_turns)) else Inr []),
       create_event = (\<lambda>calls memory_id actor_id session_id entries. Inr ()) \<rparr>"

definition chronological_prompt :: "string \<Rightarrow> turn_message list list \<Rightarrow> string" where
  "chronological_prompt ptext stored =
     ptext @ ''\<newline>\<newline>Recent conversation history:\<newline>''
       @ join ''\<newline>'' (map format_line (concat stored))
       @ ''\<newline>\<newline>Continue the conversation naturally based on this context.''"

definition prompt_before_turn ::
  "string \<Rightarrow> services \<Rightarrow> world \<Rightarrow> (string \<times> string) list \<Rightarrow> string option
     \<Rightarrow> string option" where
  "prompt_before_turn ptext E w payload session_id =
     (case snd (game_analyst_agent_setup ptext E w payload session_id) of
        Inl e \<Rightarrow> None
      | Inr (client, prov, a) \<Rightarrow> Some (system_prompt a))"








definition no_call :: "provider option \<Rightarrow> agent \<Rightarrow> string option
    \<Rightarrow> event list \<times> (exn + agent_result)" where
  "no_call p a u = ([], Inr (answer ''done''))"


definition ask :: "(string \<times> string) list" where
  "ask = [(''prompt'', ''Who founded Aeternum?''), (''user_id'', ''alice'')]"


text \<open>
  The nine entrypoints of the repository, and the invocation of one. Only the agents with
  memory take the context, hence the session id.
\<close>

datatype entrypoint =
    Analyst
  | AnalystBasic
  | LoreMemory
  | GameplayMemory
  | StrategyMemory
  | LoreBasic
  | GameplayBasic
  | StrategyBasic
  | LoreKiro

fun invoke ::
  "entrypoint \<Rightarrow> string \<Rightarrow> services \<Rightarrow> world \<Rightarrow> (string \<times> string) list \<Rightarrow> string option
     \<Rightarrow> world \<times> (exn + json)" where
  "invoke Analyst ptext E w payload sid = game_analyst_agent ptext E w payload sid"
| "invoke AnalystBasic ptext E w payload sid = game_analyst_agent_basic ptext E w payload"
| "invoke LoreMemory ptext E w payload sid = lore_agent ptext E w payload sid"
| "invoke GameplayMemory ptext E w payload sid = gameplay_agent ptext E w payload sid"
| "invoke StrategyMemory ptext E w payload sid = strategy_agent ptext E w payload sid"
| "invoke LoreBasic ptext E w payload sid = lore_agent_basic ptext E w payload"
| "invoke GameplayBasic ptext E w payload sid = gameplay_agent_basic ptext E w payload"
| "invoke StrategyBasic ptext E w payload sid = strategy_agent_basic ptext E w payload"
| "invoke LoreKiro ptext E w payload sid = lore_agent_kiro ptext E w payload"

fun is_specialist :: "entrypoint \<Rightarrow> bool" where
  "is_specialist Analyst = False"
| "is_specialist AnalystBasic = False"
| "is_specialist ep = True"

text \<open>Every constructor and the tool listing succeed: the entrypoint reaches the agent call.\<close>

definition reaches_call :: "services \<Rightarrow> bool" where
  "reaches_call E =
     (\<not> isl (new_memory_client E) \<and> (\<forall>p. new_memory_provider E p = None)
      \<and> new_agent E = None \<and> mcp_start E = None \<and> list_tools_sync E = None)"


definition failing_call :: "provider option \<Rightarrow> agent \<Rightarrow> string option
    \<Rightarrow> event list \<times> (exn + agent_result)" where
  "failing_call p a u = ([], Inl (External ''model timed out''))"

text \<open>
  The connections to the knowledge base that are open after a sequence of starts and
  stops, and the connections started between two worlds.
\<close>

definition still_open :: "kb_event list \<Rightarrow> nat list" where
  "still_open evs =
     foldl (\<lambda>conns ev. case ev of Start k \<Rightarrow> k # conns | Stop k \<Rightarrow> remove1 k conns) [] evs"

definition started_between :: "world \<Rightarrow> world \<Rightarrow> nat list" where
  "started_between w w' =
     concat (map (\<lambda>ev. case ev of Start k \<Rightarrow> [k] | Stop k \<Rightarrow> [])
               (drop (length (kb_events w)) (kb_events w')))"

text \<open>
  The memory client and the provider can be made and the connection can be started: the
  specialist enters its \<^verbatim>\<open>with\<close> block.
\<close>

definition enters :: "services \<Rightarrow> bool" where
  "enters E =
     (\<not> isl (new_memory_client E) \<and> (\<forall>p. new_memory_provider E p = None)
      \<and> mcp_start E = None)"

definition tools_unlisted :: services where
  "tools_unlisted =
     (services_of quiet_client no_call)\<lparr>list_tools_sync := Some (External ''no tools'')\<rparr>"

text \<open>
  The specialists with memory, the provider each builds, the project id it reads from the
  payload and the namespace it names.
\<close>

fun has_memory :: "entrypoint \<Rightarrow> bool" where
  "has_memory LoreMemory = True"
| "has_memory GameplayMemory = True"
| "has_memory StrategyMemory = True"
| "has_memory ep = False"

fun memory_provider ::
  "entrypoint \<Rightarrow> (string \<times> string) list \<Rightarrow> string option \<Rightarrow> provider option" where
  "memory_provider LoreMemory payload sid = Some (lore_provider payload sid)"
| "memory_provider GameplayMemory payload sid = Some (gameplay_provider payload sid)"
| "memory_provider StrategyMemory payload sid = Some (strategy_provider payload sid)"
| "memory_provider ep payload sid = None"

definition project_id_of :: "(string \<times> string) list \<Rightarrow> string" where
  "project_id_of payload = get_default payload ''project_id'' ''new-world-aternum''"

fun namespace_of :: "entrypoint \<Rightarrow> string \<Rightarrow> string" where
  "namespace_of GameplayMemory project_id = ''project/gameplay/'' @ project_id @ ''/semantic''"
| "namespace_of ep project_id = ''project/'' @ project_id @ ''/semantic''"

text \<open>A call that writes an event of the given actor to the given memory.\<close>

definition written_by :: "string \<Rightarrow> string \<Rightarrow> mem_op \<Rightarrow> bool" where
  "written_by memory_id actor op =
     (case op of
        CreateEvent m a s entries \<Rightarrow> m = memory_id \<and> a = JStr actor
      | GetLastKTurns m a s k b \<Rightarrow> False)"

text \<open>
  The services in which every provider but the given one is refused and every call of an
  agent built on another provider raises.
\<close>

definition only_provider :: "provider option \<Rightarrow> services \<Rightarrow> services" where
  "only_provider p E =
     E\<lparr> new_memory_provider :=
          (\<lambda>q. if Some q = p then new_memory_provider E q
                else Some (External ''another memory'')),
        agent_call :=
          (\<lambda>q. if q = p then agent_call E q
                else (\<lambda>a u. ([], Inl (External ''another memory'')))) \<rparr>"

text \<open>A model whose answer tells whether its memory tools work on the given namespace.\<close>

definition namespace_call ::
  "string \<Rightarrow> provider option \<Rightarrow> agent \<Rightarrow> string option \<Rightarrow> event list \<times> (exn + agent_result)" where
  "namespace_call ns p a u =
     ([MessageAdded (user_says ''q''), MessageAdded (assistant_says ''a''), AfterInvocation],
      Inr (answer (if map_option provider_namespace p = Some ns
                   then ''project memory'' else ''another namespace'')))"

definition ask_project :: "string \<Rightarrow> (string \<times> string) list" where
  "ask_project u = [(''prompt'', ''q''), (''project_id'', ''nw''), (''user_id'', u)]"

section \<open>Properties of the delegation tools\<close>

lemma call_tool_delegate: "call_tool v t = delegate (lookup_of v) (specialist_name t)"
  by (cases v; cases t)
    (simp_all add: get_lore_agent_def get_gameplay_agent_def get_strategy_agent_def
      get_lore_agent_basic_def get_gameplay_agent_basic_def get_strategy_agent_basic_def)

lemma lookup_of_parameter:
  "(lookup_of v R (specialist_name t) = Inr agent_arn)
     = (ssm_get_parameter R (arn_parameter v t) = Inr agent_arn)"
  by (cases v; cases t) (simp_all add: get_agent_arn_def get_agent_arn_basic_def split: sum.splits)

lemma delegate_returns:
  "(delegate lookup name R tm payload = (tm', Inr r))
     = (\<exists>agent_arn body response m.
          lookup R name = Inr agent_arn
          \<and> invoke_agent_runtime R agent_arn ''DEFAULT'' (JObj [(''prompt'', payload)]) = Inr body
          \<and> json_loads R body = Inr response
          \<and> getitem response ''response'' = Inr r
          \<and> getitem response ''metrics'' = Inr m
          \<and> tm' = tm @ [m])"
  by (auto simp: delegate_def invoke_agent_with_boto3_def split: sum.splits)

text \<open>
  C6. A delegation tool returns exactly when the parameter store, asked for the parameter of
  the tool's specialist (\<^verbatim>\<open>/agents/<name>_arn\<close>, \<^verbatim>\<open>/agents/<name>_arn_no_memories\<close> for the
  basic orchestrator), answers an ARN, the agent runtime, called with that ARN, the
  qualifier \<^verbatim>\<open>DEFAULT\<close> and the payload \<^verbatim>\<open>{"prompt": payload}\<close>, answers a body,
  \<^verbatim>\<open>json.loads\<close> decodes that body, and the decoded reply has a \<^verbatim>\<open>metrics\<close> and a
  \<^verbatim>\<open>response\<close> field. The value handed to the framework is then exactly the value of the
  \<^verbatim>\<open>response\<close> field of what that specialist answered; the value of the \<^verbatim>\<open>metrics\<close>
  field goes to the end of \<^verbatim>\<open>toolmetrics\<close> and nowhere else. This holds for the three tools
  of both orchestrators.
\<close>

theorem C6_tool_returns_answer_only:
  "(call_tool v t R tm payload = (tm', Inr r))
     = (\<exists>agent_arn body response m.
          ssm_get_parameter R (arn_parameter v t) = Inr agent_arn
          \<and> invoke_agent_runtime R agent_arn ''DEFAULT'' (JObj [(''prompt'', payload)]) = Inr body
          \<and> json_loads R body = Inr response
          \<and> getitem response ''response'' = Inr r
          \<and> getitem response ''metrics'' = Inr m
          \<and> tm' = tm @ [m])"
  by (simp only: call_tool_delegate delegate_returns lookup_of_parameter)

lemma delegate_answering:
  "delegate get_agent_arn n (answering b r) tm p =
     (case getitem r ''metrics'' of
        Inl e \<Rightarrow> (tm, Inl e)
      | Inr m \<Rightarrow>
          (case getitem r ''response'' of
             Inl e \<Rightarrow> (tm @ [m], Inl e)
           | Inr x \<Rightarrow> (tm @ [m], Inr x)))"
  "delegate get_agent_arn_basic n (answering b r) tm p =
     (case getitem r ''metrics'' of
        Inl e \<Rightarrow> (tm, Inl e)
      | Inr m \<Rightarrow>
          (case getitem r ''response'' of
             Inl e \<Rightarrow> (tm @ [m], Inl e)
           | Inr x \<Rightarrow> (tm @ [m], Inr x)))"
  by (simp_all add: delegate_def answering_def get_agent_arn_def get_agent_arn_basic_def
      invoke_agent_with_boto3_def)

lemma decoded_answering:
  "decoded_reply get_agent_arn n (answering b r) p = Some r"
  "decoded_reply get_agent_arn_basic n (answering b r) p = Some r"
  by (simp_all add: decoded_reply_def answering_def get_agent_arn_def get_agent_arn_basic_def
      invoke_agent_with_boto3_def)

lemma gameplay_call_good_reply:
  "call_tool WithMemory Gameplay gameplay_remote [] q0
     = ([JObj [(''totalTokens'', JNum 42)]], Inr (JStr ''The Ancients.''))"
  by (simp add: get_gameplay_agent_def delegate_def get_agent_arn_def
      invoke_agent_with_boto3_def gameplay_remote_def good_reply_def dict_item_def)

theorem C6_witness:
  "call_tool WithMemory Gameplay gameplay_remote [] q0
     = ([JObj [(''totalTokens'', JNum 42)]], Inr (JStr ''The Ancients.''))
   \<and> (\<exists>agent_arn body response m.
        ssm_get_parameter gameplay_remote ''/agents/gameplay_agent_arn'' = Inr agent_arn
        \<and> invoke_agent_runtime gameplay_remote agent_arn ''DEFAULT'' (JObj [(''prompt'', q0)])
            = Inr body
        \<and> json_loads gameplay_remote body = Inr response
        \<and> getitem response ''response'' = Inr (JStr ''The Ancients.'')
        \<and> getitem response ''metrics'' = Inr m
        \<and> [JObj [(''totalTokens'', JNum 42)]] = [] @ [m])"
  using C6_tool_returns_answer_only [where v = WithMemory and t = Gameplay
      and R = gameplay_remote and tm = "[]" and payload = q0
      and tm' = "[JObj [(''totalTokens'', JNum 42)]]" and r = "JStr ''The Ancients.''"]
    gameplay_call_good_reply
  by simp

lemma delegate_decoded:
  assumes "decoded_reply lookup name R payload = Some response"
  shows "delegate lookup name R tm payload =
     (case getitem response ''metrics'' of
        Inl e \<Rightarrow> (tm, Inl e)
      | Inr m \<Rightarrow>
          (case getitem response ''response'' of
             Inl e \<Rightarrow> (tm @ [m], Inl e)
           | Inr x \<Rightarrow> (tm @ [m], Inr x)))"
  using assms by (auto simp: delegate_def decoded_reply_def split: sum.splits)

text \<open>
  C3, as the code has it. When the decoded reply is well formed, the tool returns the value
  of its \<^verbatim>\<open>response\<close> field, whatever it is: nothing tests it for emptiness. When the reply
  is malformed, the subscript raises and the exception leaves the tool: \<^verbatim>\<open>KeyError\<close> for an
  object that lacks a field (of \<^verbatim>\<open>metrics\<close>, read first, with \<^verbatim>\<open>toolmetrics\<close> untouched; of
  \<^verbatim>\<open>response\<close> otherwise), \<^verbatim>\<open>TypeError\<close> for a reply that is no object, such as the
  specialists' plain string, with \<^verbatim>\<open>toolmetrics\<close> untouched. The tool builds no error result
  of its own.
\<close>

theorem C3_malformed_reply_raises:
  assumes "decoded_reply (lookup_of v) (specialist_name t) R payload = Some response"
  shows "(well_formed_reply response \<longrightarrow>
            snd (call_tool v t R tm payload) = getitem response ''response''
            \<and> \<not> isl (snd (call_tool v t R tm payload)))
       \<and> (\<not> well_formed_reply response \<longrightarrow>
            (\<exists>k. snd (call_tool v t R tm payload) = Inl (KeyError k))
            \<or> (\<exists>msg. snd (call_tool v t R tm payload) = Inl (TypeError msg)))
       \<and> (\<forall>d. response = JObj d \<and> \<not> has_key d ''metrics'' \<longrightarrow>
              call_tool v t R tm payload = (tm, Inl (KeyError ''metrics'')))
       \<and> (\<forall>d. response = JObj d \<and> has_key d ''metrics'' \<and> \<not> has_key d ''response'' \<longrightarrow>
              snd (call_tool v t R tm payload) = Inl (KeyError ''response''))
       \<and> ((\<forall>d. response \<noteq> JObj d) \<longrightarrow>
              (\<exists>msg. call_tool v t R tm payload = (tm, Inl (TypeError msg))))"
proof (cases response)
  case (JObj d)
  then show ?thesis
    by (auto simp: call_tool_delegate delegate_decoded [OF assms] well_formed_reply_def
        has_key_def dict_item_def split: option.splits)
qed (simp_all add: call_tool_delegate delegate_decoded [OF assms] well_formed_reply_def)

theorem C3_witness:
  "decoded_reply (lookup_of Basic) (specialist_name Strategy)
      (answering ''x'' (JStr ''error timed out'')) q0 = Some (JStr ''error timed out'')
   \<and> \<not> well_formed_reply (JStr ''error timed out'')
   \<and> snd (call_tool Basic Strategy (answering ''x'' (JStr ''error timed out'')) [] q0)
       = Inl (TypeError (''string indices must be integers, not '' @ quoted ''str''))"
  using C3_malformed_reply_raises [where v = Basic and t = Strategy
      and R = "answering ''x'' (JStr ''error timed out'')" and payload = q0
      and response = "JStr ''error timed out''" and tm = "[]"]
  by (simp add: decoded_answering well_formed_reply_def call_tool_delegate delegate_answering)

text \<open>
  The claim C3 fails on the code: on the plain string with which a specialist reports an
  error, both orchestrators' lore tools raise \<^verbatim>\<open>TypeError\<close> instead of returning an error
  result; and an empty answer is returned like any other.
\<close>

theorem C3_counterexample:
  "\<not> well_formed_reply (JStr ''error timed out'')
   \<and> call_tool WithMemory Lore (answering ''x'' (JStr ''error timed out'')) [] q0
       = ([], Inl (TypeError (''string indices must be integers, not '' @ quoted ''str'')))
   \<and> call_tool Basic Lore (answering ''x'' (JStr ''error timed out'')) [] q0
       = ([], Inl (TypeError (''string indices must be integers, not '' @ quoted ''str'')))
   \<and> call_tool WithMemory Lore
        (answering ''y'' (JObj [(''response'', JStr ''''), (''metrics'', JObj [])])) [] q0
       = ([JObj []], Inr (JStr ''''))"
  by (simp add: call_tool_delegate delegate_answering well_formed_reply_def dict_item_def)

section \<open>Properties of the long-term hook\<close>

lemma scan_step:
  "\<not> truthy u0 \<Longrightarrow> scan (msg # rest) (u0, a0) =
     (if true_user_message msg then (first_text msg, a0)
      else if role msg = ''assistant'' \<and> content msg \<noteq> [] \<and> \<not> truthy a0
        then scan rest (u0, first_text msg)
      else if role msg = ''user'' \<and> content msg \<noteq> []
              \<and> \<not> has_key (hd (content msg)) ''toolResult''
        then scan rest (first_text msg, a0)
      else scan rest (u0, a0))"
  by (auto simp: true_user_message_def first_text_def Let_def)

lemma falsy_user_text:
  "\<not> true_user_message msg \<Longrightarrow> role msg = ''user'' \<Longrightarrow> content msg \<noteq> [] \<Longrightarrow>
   \<not> has_key (hd (content msg)) ''toolResult'' \<Longrightarrow> \<not> truthy (first_text msg)"
  by (simp add: true_user_message_def)

lemma scan_user_found:
  "\<not> truthy u0 \<Longrightarrow> find true_user_message r = Some u \<Longrightarrow> fst (scan r (u0, a0)) = first_text u"
proof (induction r arbitrary: u0 a0)
  case Nil
  then show ?case by simp
next
  case (Cons msg rest)
  show ?case
  proof (cases "true_user_message msg")
    case True
    with Cons.prems show ?thesis by (simp del: scan.simps add: scan_step)
  next
    case False
    with Cons.prems have f: "find true_user_message rest = Some u" by simp
    from False Cons.prems(1) Cons.IH [OF _ f] falsy_user_text [OF False]
    show ?thesis by (simp del: scan.simps add: scan_step)
  qed
qed

lemma scan_user_missing:
  "\<not> truthy u0 \<Longrightarrow> find true_user_message r = None \<Longrightarrow> \<not> truthy (fst (scan r (u0, a0)))"
proof (induction r arbitrary: u0 a0)
  case Nil
  then show ?case by simp
next
  case (Cons msg rest)
  from Cons.prems have nu: "\<not> true_user_message msg"
    and f: "find true_user_message rest = None" by (simp_all split: if_splits)
  from nu Cons.prems(1) Cons.IH [OF _ f] falsy_user_text [OF nu]
  show ?case by (simp del: scan.simps add: scan_step)
qed

lemma scan_assistant_kept:
  "truthy a0 \<Longrightarrow> snd (scan r (u0, a0)) = a0"
  by (induction r arbitrary: u0) (simp_all add: Let_def)

lemma scan_assistant_found:
  "\<not> truthy u0 \<Longrightarrow> \<not> truthy a0 \<Longrightarrow>
   find assistant_reply (takeWhile (\<lambda>m. \<not> true_user_message m) r) = Some x \<Longrightarrow>
   snd (scan r (u0, a0)) = first_text x"
proof (induction r arbitrary: u0 a0)
  case Nil
  then show ?case by simp
next
  case (Cons msg rest)
  from Cons.prems(3) have nu: "\<not> true_user_message msg" by (auto split: if_splits)
  show ?case
  proof (cases "assistant_reply msg")
    case True
    with Cons.prems nu have "x = msg" by simp
    with True nu Cons.prems(1,2) show ?thesis
      by (simp del: scan.simps add: scan_step assistant_reply_def scan_assistant_kept)
  next
    case False
    with nu Cons.prems(3)
    have f: "find assistant_reply (takeWhile (\<lambda>m. \<not> true_user_message m) rest) = Some x"
      by simp
    from False
    have na: "role msg = ''assistant'' \<Longrightarrow> content msg \<noteq> [] \<Longrightarrow> \<not> truthy (first_text msg)"
      by (simp add: assistant_reply_def)
    from nu Cons.prems(1,2) Cons.IH [OF _ _ f] falsy_user_text [OF nu] na
    show ?thesis by (simp del: scan.simps add: scan_step)
  qed
qed

lemma scan_assistant_missing:
  "\<not> truthy u0 \<Longrightarrow> \<not> truthy a0 \<Longrightarrow>
   find assistant_reply (takeWhile (\<lambda>m. \<not> true_user_message m) r) = None \<Longrightarrow>
   \<not> truthy (snd (scan r (u0, a0)))"
proof (induction r arbitrary: u0 a0)
  case Nil
  then show ?case by simp
next
  case (Cons msg rest)
  show ?case
  proof (cases "true_user_message msg")
    case True
    with Cons.prems(1,2) show ?thesis by (simp del: scan.simps add: scan_step)
  next
    case nu: False
    with Cons.prems(3) have nar: "\<not> assistant_reply msg"
      and f: "find assistant_reply (takeWhile (\<lambda>m. \<not> true_user_message m) rest) = None"
      by (simp_all split: if_splits)
    from nar
    have na: "role msg = ''assistant'' \<Longrightarrow> content msg \<noteq> [] \<Longrightarrow> \<not> truthy (first_text msg)"
      by (simp add: assistant_reply_def)
    from nu Cons.prems(1,2) Cons.IH [OF _ _ f] falsy_user_text [OF nu] na
    show ?thesis by (simp del: scan.simps add: scan_step)
  qed
qed

lemma find_SomeD: "find P xs = Some x \<Longrightarrow> P x \<and> x \<in> set xs"
  by (induction xs) (auto split: if_splits)

lemma two_members: "x \<in> set ms \<Longrightarrow> y \<in> set ms \<Longrightarrow> x \<noteq> y \<Longrightarrow> 2 \<le> length ms"
  by (cases ms; cases "tl ms") auto

lemma selected_pair_Some:
  assumes "selected_pair ms = Some (u, t)"
  shows "scan (rev ms) (JNull, JNull) = (u, t)" and "truthy u" and "truthy t"
    and "2 \<le> length ms"
proof -
  from assms obtain x y where x: "find true_user_message (rev ms) = Some x"
    and y: "find assistant_reply (takeWhile (\<lambda>m. \<not> true_user_message m) (rev ms)) = Some y"
    and u: "u = first_text x" and t: "t = first_text y"
    by (auto simp: selected_pair_def split: option.splits)
  from find_SomeD [OF x] have tx: "true_user_message x" and xin: "x \<in> set ms"
    by simp_all
  from find_SomeD [OF y] have ty: "assistant_reply y"
    and yin: "y \<in> set (takeWhile (\<lambda>m. \<not> true_user_message m) (rev ms))"
    by simp_all
  from yin have yin': "y \<in> set ms" by (auto dest: set_takeWhileD)
  from tx ty have "x \<noteq> y" by (auto simp: true_user_message_def assistant_reply_def)
  with xin yin' show "2 \<le> length ms" by (rule two_members)
  from tx u show "truthy u" by (simp add: true_user_message_def)
  from ty t show "truthy t" by (simp add: assistant_reply_def)
  have "fst (scan (rev ms) (JNull, JNull)) = u"
    using scan_user_found [OF _ x, of JNull JNull] u by simp
  moreover have "snd (scan (rev ms) (JNull, JNull)) = t"
    using scan_assistant_found [OF _ _ y, of JNull JNull] t by simp
  ultimately show "scan (rev ms) (JNull, JNull) = (u, t)" by (simp add: prod_eq_iff)
qed

lemma selected_pair_None:
  assumes "selected_pair ms = None"
  shows "\<not> (truthy (fst (scan (rev ms) (JNull, JNull)))
           \<and> truthy (snd (scan (rev ms) (JNull, JNull))))"
proof (cases "find true_user_message (rev ms)")
  case None
  from scan_user_missing [OF _ None, of JNull JNull] show ?thesis by simp
next
  case (Some x)
  with assms
  have "find assistant_reply (takeWhile (\<lambda>m. \<not> true_user_message m) (rev ms)) = None"
    by (simp add: selected_pair_def split: option.splits)
  from scan_assistant_missing [OF _ _ this, of JNull JNull] show ?thesis by simp
qed

lemma save_memories_calls:
  "snd (fst (save_memories client memory_id (a, calls))) =
     (case selected_pair (messages a) of
        None \<Rightarrow> calls
      | Some (user_text, assistant_text) \<Rightarrow>
          if ids_present a
          then calls @ [CreateEvent memory_id (dict_get (state a) ''actor_id'')
                          (dict_get (state a) ''session_id'')
                          [(user_text, ''USER''), (assistant_text, ''ASSISTANT'')]]
          else calls)"
proof (cases "selected_pair (messages a)")
  case None
  from selected_pair_None [OF None] show ?thesis
    by (auto simp: None save_memories_def save_memories_body_def logged_and_dropped_def Let_def
        split: sum.splits)
next
  case (Some p)
  obtain u t where p: "p = (u, t)" by (cases p)
  from Some p have sp: "selected_pair (messages a) = Some (u, t)" by simp
  from selected_pair_Some [OF sp] show ?thesis
    by (auto simp: sp save_memories_def save_memories_body_def logged_and_dropped_def Let_def
        ids_present_def split: sum.splits)
qed

lemma selected_after_tool_result:
  assumes "role tr = ''user''" "content tr \<noteq> []" "has_key (hd (content tr)) ''toolResult''"
    and "assistant_reply am" and "find true_user_message (rev pre) = Some u"
  shows "selected_pair (pre @ [tr, am]) = Some (first_text u, first_text am)"
proof -
  from assms(4) have "\<not> true_user_message am"
    by (simp add: assistant_reply_def true_user_message_def)
  moreover from assms(1-3) have "\<not> true_user_message tr"
    by (simp add: true_user_message_def)
  ultimately show ?thesis
    using assms(4,5) by (simp add: selected_pair_def)
qed

text \<open>
  C2, as the code has it. \<^verbatim>\<open>save_memories\<close> makes at most one call to the memory client:
  \<^verbatim>\<open>create_event\<close> with exactly the two entries (user text, USER) and (assistant text,
  ASSISTANT), when the agent state holds an actor and a session id. The user text is the
  text of the most recent user message whose first block is not a tool result and carries
  a non-empty text; the assistant text is the text of the most recent assistant message,
  among those after that user message, whose first block carries a non-empty text. When
  one of the two does not exist nothing is persisted. In particular, when the list ends
  with a tool-result message and an assistant reply, the user text is that of the nearest
  earlier true user message, never the tool result.
\<close>

theorem C2_persisted_pair:
  "snd (fst (save_memories client memory_id (a, calls))) =
     (case selected_pair (messages a) of
        None \<Rightarrow> calls
      | Some (user_text, assistant_text) \<Rightarrow>
          if ids_present a
          then calls @ [CreateEvent memory_id (dict_get (state a) ''actor_id'')
                          (dict_get (state a) ''session_id'')
                          [(user_text, ''USER''), (assistant_text, ''ASSISTANT'')]]
          else calls)
   \<and> (role tr = ''user'' \<and> content tr \<noteq> [] \<and> has_key (hd (content tr)) ''toolResult''
        \<and> assistant_reply am \<and> find true_user_message (rev pre) = Some u
      \<longrightarrow> selected_pair (pre @ [tr, am]) = Some (first_text u, first_text am))"
  using save_memories_calls selected_after_tool_result by blast

lemma selected_example:
  "selected_pair [user_says ''q'', tool_use, tool_result, assistant_says ''answer'']
     = Some (JStr ''q'', JStr ''answer'')"
  by (simp add: selected_pair_def true_user_message_def assistant_reply_def first_text_def
      user_says_def assistant_says_def tool_use_def tool_result_def dict_get_def has_key_def)

theorem C2_witness:
  "snd (fst (save_memories quiet_client ''mem''
        (agent_with [user_says ''q'', tool_use, tool_result, assistant_says ''answer''], [])))
     = [CreateEvent ''mem'' (JStr ''alice'') (JStr ''s1'')
          [(JStr ''q'', ''USER''), (JStr ''answer'', ''ASSISTANT'')]]
   \<and> selected_pair ([user_says ''q'', tool_use] @ [tool_result, assistant_says ''answer''])
       = Some (first_text (user_says ''q''), first_text (assistant_says ''answer''))"
  using C2_persisted_pair [where client = quiet_client and memory_id = "''mem''"
      and a = "agent_with [user_says ''q'', tool_use, tool_result, assistant_says ''answer'']"
      and calls = "[]" and tr = tool_result and am = "assistant_says ''answer''"
      and pre = "[user_says ''q'', tool_use]" and u = "user_says ''q''"]
  by (simp add: selected_example agent_with_def ids_present_def agent_state_def dict_get_def
      has_key_def tool_result_def assistant_reply_def assistant_says_def first_text_def
      true_user_message_def user_says_def tool_use_def)

text \<open>
  The claim C2 fails on the code as it is written. With an assistant message before the
  user message, both of the claim's messages exist and both ids are present, and nothing
  is persisted: the loop stops at the user message. With an empty user text before the
  answer, nothing is persisted either.
\<close>

theorem C2_counterexample:
  "claimed_pair [assistant_says ''a'', user_says ''u''] = Some (JStr ''u'', JStr ''a'')
   \<and> ids_present (agent_with [assistant_says ''a'', user_says ''u''])
   \<and> snd (fst (save_memories quiet_client ''mem''
          (agent_with [assistant_says ''a'', user_says ''u''], []))) = []
   \<and> claimed_pair [user_says [], assistant_says ''answer''] = Some (JStr [], JStr ''answer'')
   \<and> snd (fst (save_memories quiet_client ''mem''
          (agent_with [user_says [], assistant_says ''answer''], []))) = []"
  by (simp add: save_memories_calls selected_pair_def claimed_pair_def claimed_user_def
      claimed_assistant_def true_user_message_def assistant_reply_def first_text_def
      user_says_def assistant_says_def dict_get_def has_key_def agent_with_def ids_present_def
      agent_state_def)

section \<open>The hooks never raise\<close>

lemma on_agent_initialized_returns: "snd (on_agent_initialized client memory_id s) = None"
  by (simp add: on_agent_initialized_def logged_and_dropped_def)

lemma on_message_added_returns: "snd (on_message_added client memory_id s) = None"
  by (simp add: on_message_added_def logged_and_dropped_def)

lemma save_memories_returns: "snd (save_memories client memory_id s) = None"
  by (simp add: save_memories_def logged_and_dropped_def)

lemma on_agent_initialized_no_ids:
  "\<not> ids_present (fst s) \<Longrightarrow> fst (on_agent_initialized client memory_id s) = s"
  by (auto simp: on_agent_initialized_def on_agent_initialized_body_def logged_and_dropped_def
      ids_present_def Let_def)

lemma on_message_added_no_ids:
  "\<not> ids_present (fst s) \<Longrightarrow> fst (on_message_added client memory_id s) = s"
  by (auto simp: on_message_added_def on_message_added_body_def logged_and_dropped_def
      ids_present_def Let_def)

lemma save_memories_no_ids:
  "\<not> ids_present (fst s) \<Longrightarrow> fst (save_memories client memory_id s) = s"
  by (auto simp: save_memories_def save_memories_body_def logged_and_dropped_def
      ids_present_def Let_def)

lemma run_events_returns:
  assumes "\<And>ev s. snd (step ev s) = None"
  shows "snd (run_events step evs s) = None"
proof (induction evs arbitrary: s)
  case Nil
  show ?case by simp
next
  case (Cons ev evs)
  obtain s' x where st: "step ev s = (s', x)" by (cases "step ev s")
  with assms [of ev s] have "x = None" by simp
  with st Cons.IH [of s'] show ?case by simp
qed

lemma analyst_step_returns: "snd (analyst_step client ev st) = None"
proof -
  obtain tm a calls where st: "st = (tm, (a, calls))" by (cases st) auto
  show ?thesis
    by (cases ev)
      (simp_all add: st on_message_added_returns save_memories_returns split: prod.splits,
        (metis on_message_added_returns save_memories_returns snd_conv)+)
qed

lemma specialist_step_returns: "snd (specialist_step client memory_id ev s) = None"
  by (cases ev; cases s) (simp_all add: save_memories_returns)

lemma analyst_run_returns: "snd (run_events (analyst_step client) evs st) = None"
  by (rule run_events_returns) (rule analyst_step_returns)

lemma specialist_run_returns:
  "snd (run_events (specialist_step client memory_id) evs s) = None"
  by (rule run_events_returns) (rule specialist_step_returns)

lemma setup_reaches_try:
  assumes "new_memory_client E = Inr client" and "\<And>p. new_memory_provider E p = None"
    and "new_agent E = None"
  shows "\<exists>w1 prov a. game_analyst_agent_setup ptext E w payload session_id
           = (w1, Inr (client, prov, a))"
proof -
  let ?s = "on_agent_initialized client session_memory_id
              (\<lparr> system_prompt = ptext,
                 state = agent_state (get_default payload ''user_id'' ''default-user'') session_id,
                 messages = [] \<rparr>, memory_calls (w\<lparr>global_toolmetrics := []\<rparr>))"
  obtain a calls x where r: "?s = ((a, calls), x)" by (cases ?s) auto
  with on_agent_initialized_returns [of client session_memory_id] have "x = None"
    by (metis snd_conv)
  with r assms show ?thesis
    by (simp add: game_analyst_agent_setup_def Let_def)
qed

text \<open>
  C4. Whatever the memory client does, also when every read and write raises, each of the
  three hooks returns without an exception; when the agent state lacks an actor or a
  session id, each leaves the agent and the list of memory calls as they were (no memory
  operation). So every callback of a turn runs, for the orchestrator and for a specialist,
  and when the model produces an answer the orchestrator's entrypoint returns it.
\<close>

theorem C4_memory_never_aborts:
  "snd (on_agent_initialized client memory_id s) = None
   \<and> snd (on_message_added client memory_id s) = None
   \<and> snd (save_memories client memory_id s) = None
   \<and> (\<not> ids_present (fst s) \<longrightarrow>
        fst (on_agent_initialized client memory_id s) = s
        \<and> fst (on_message_added client memory_id s) = s
        \<and> fst (save_memories client memory_id s) = s)
   \<and> snd (run_events (analyst_step client) evs st) = None
   \<and> snd (run_events (specialist_step client memory_id) evs s) = None
   \<and> (new_memory_client E = Inr client \<and> (\<forall>p. new_memory_provider E p = None)
        \<and> new_agent E = None \<and> (\<forall>p a u. snd (agent_call E p a u) = Inr res)
        \<and> answer_text res = Inr reply_text
      \<longrightarrow> (\<exists>tms. snd (game_analyst_agent ptext E w payload session_id)
             = Inr (JObj [(''response'', reply_text), (''metrics'', metrics_summary res),
                          (''toolMetrics'', JArr tms)])))"
proof -
  have last: "\<exists>tms. snd (game_analyst_agent ptext E w payload session_id)
             = Inr (JObj [(''response'', reply_text), (''metrics'', metrics_summary res),
                          (''toolMetrics'', JArr tms)])"
    if h: "new_memory_client E = Inr client" "\<And>p. new_memory_provider E p = None"
      "new_agent E = None" "\<And>p a u. snd (agent_call E p a u) = Inr res"
      "answer_text res = Inr reply_text"
  proof -
    from setup_reaches_try [OF h(1-3)] obtain w1 prov a where
      "game_analyst_agent_setup ptext E w payload session_id = (w1, Inr (client, prov, a))"
      by blast
    then show ?thesis
      by (simp add: game_analyst_agent_def game_analyst_agent_try_def Let_def
          analyst_run_returns h(4,5))
  qed
  have "new_memory_client E = Inr client \<and> (\<forall>p. new_memory_provider E p = None)
        \<and> new_agent E = None \<and> (\<forall>p a u. snd (agent_call E p a u) = Inr res)
        \<and> answer_text res = Inr reply_text
      \<longrightarrow> (\<exists>tms. snd (game_analyst_agent ptext E w payload session_id)
             = Inr (JObj [(''response'', reply_text), (''metrics'', metrics_summary res),
                          (''toolMetrics'', JArr tms)]))"
    using last by blast
  moreover have "\<not> ids_present (fst s) \<longrightarrow>
        fst (on_agent_initialized client memory_id s) = s
        \<and> fst (on_message_added client memory_id s) = s
        \<and> fst (save_memories client memory_id s) = s"
    by (simp add: on_agent_initialized_no_ids on_message_added_no_ids save_memories_no_ids)
  ultimately show ?thesis
    by (simp only: on_agent_initialized_returns on_message_added_returns
        save_memories_returns analyst_run_returns specialist_run_returns simp_thms)
qed

theorem C4_witness:
  "\<not> ids_present (fst (anonymous_agent [user_says ''q'', assistant_says ''a''], []))
   \<and> fst (on_agent_initialized broken_client ''m''
            (anonymous_agent [user_says ''q'', assistant_says ''a''], []))
       = (anonymous_agent [user_says ''q'', assistant_says ''a''], [])
   \<and> fst (on_message_added broken_client ''m''
            (anonymous_agent [user_says ''q'', assistant_says ''a''], []))
       = (anonymous_agent [user_says ''q'', assistant_says ''a''], [])
   \<and> fst (save_memories broken_client ''m''
            (anonymous_agent [user_says ''q'', assistant_says ''a''], []))
       = (anonymous_agent [user_says ''q'', assistant_says ''a''], [])
   \<and> snd (save_memories broken_client ''m''
            (anonymous_agent [user_says ''q'', assistant_says ''a''], [])) = None
   \<and> (\<exists>tms. snd (game_analyst_agent ''You are an analyst.''
                  (services_of broken_client
                     (\<lambda>p a u. ([MessageAdded (user_says ''q''),
                                 MessageAdded (assistant_says ''a''), AfterInvocation],
                                Inr (answer ''a''))))
                  world0 [(''prompt'', ''q''), (''user_id'', ''alice'')] (Some ''s1''))
          = Inr (JObj [(''response'', JStr ''a''), (''metrics'', metrics_summary (answer ''a'')),
                       (''toolMetrics'', JArr tms)]))"
  using C4_memory_never_aborts [where client = broken_client and memory_id = "''m''"
      and s = "(anonymous_agent [user_says ''q'', assistant_says ''a''], [])"
      and E = "services_of broken_client
                 (\<lambda>p a u. ([MessageAdded (user_says ''q''),
                             MessageAdded (assistant_says ''a''), AfterInvocation],
                            Inr (answer ''a'')))"
      and res = "answer ''a''" and reply_text = "JStr ''a''" and ptext = "''You are an analyst.''"
      and w = world0 and payload = "[(''prompt'', ''q''), (''user_id'', ''alice'')]"
      and session_id = "Some ''s1''"]
  by (simp add: ids_present_def anonymous_agent_def agent_state_def dict_get_def services_of_def
      answer_def answer_text_def first_item_def dict_item_def assistant_says_def)

section \<open>Properties of the short-term hook\<close>

lemma on_agent_initialized_loads:
  assumes "ids_present a"
    and "get_last_k_turns client calls memory_id (dict_get (state a) ''actor_id'')
           (dict_get (state a) ''session_id'') 5 ''main'' = Inr turns"
  shows "on_agent_initialized client memory_id (a, calls) =
           ((a\<lparr>system_prompt :=
                 system_prompt a
                   @ (if turns = [] then []
                      else history_header @ context_of turns @ history_footer)\<rparr>,
             calls @ [GetLastKTurns memory_id (dict_get (state a) ''actor_id'')
                        (dict_get (state a) ''session_id'') 5 ''main'']), None)"
  using assms
  by (simp add: on_agent_initialized_def on_agent_initialized_body_def logged_and_dropped_def
      ids_present_def Let_def)

lemma ids_present_agent_state:
  "user_id \<noteq> [] \<Longrightarrow> sid \<noteq> [] \<Longrightarrow>
   ids_present \<lparr> system_prompt = p, state = agent_state user_id (Some sid), messages = ms \<rparr>"
  by (simp add: ids_present_def agent_state_def dict_get_def)

lemma agent_state_ids:
  "dict_get (agent_state user_id (Some sid)) ''actor_id'' = JStr user_id"
  "dict_get (agent_state user_id (Some sid)) ''session_id'' = JStr sid"
  by (simp_all add: agent_state_def dict_get_def)

lemma game_analyst_agent_setup_loads:
  assumes "new_memory_client E = Inr client" and "\<forall>p. new_memory_provider E p = None"
    and "new_agent E = None"
    and "get_default payload ''user_id'' ''default-user'' = user_id"
    and "user_id \<noteq> []" and "sid \<noteq> []"
    and "get_last_k_turns client (memory_calls w) session_memory_id (JStr user_id) (JStr sid)
           5 ''main'' = Inr turns"
  shows "game_analyst_agent_setup ptext E w payload (Some sid)
      = (w\<lparr>global_toolmetrics := [],
           memory_calls := memory_calls w
             @ [GetLastKTurns session_memory_id (JStr user_id) (JStr sid) 5 ''main'']\<rparr>,
         Inr (client,
              \<lparr> provider_memory_id = user_prefs_memory_id,
                provider_actor_id = user_id,
                provider_session_id = Some sid,
                provider_namespace = ''analyst/'' @ user_id @ ''/preferences'' \<rparr>,
              \<lparr> system_prompt =
                  ptext @ (if turns = [] then []
                           else history_header
                                @ join ''\<newline>'' (map format_line (concat turns))
                                @ history_footer),
                state = agent_state user_id (Some sid),
                messages = [] \<rparr>))"
proof -
  let ?a = "\<lparr> system_prompt = ptext, state = agent_state user_id (Some sid), messages = [] \<rparr>"
  have ids: "ids_present ?a" using assms(5,6) by (rule ids_present_agent_state)
  have turns: "get_last_k_turns client (memory_calls w) session_memory_id
                 (dict_get (state ?a) ''actor_id'') (dict_get (state ?a) ''session_id'')
                 5 ''main'' = Inr turns"
    using assms(7) by (simp add: agent_state_ids)
  note loaded = on_agent_initialized_loads [OF ids turns]
  show ?thesis
    using assms(1-4) loaded
    by (simp add: game_analyst_agent_setup_def Let_def agent_state_ids context_of_def)
qed

text \<open>
  C7, as the code has it. When the actor and the session id are present, building the
  orchestrator's agent asks the memory client for the last 5 turns of (actor, session) on
  the short-term memory, and the agent handed to the \<^verbatim>\<open>try\<close> block, with no message yet,
  has the system prompt followed by the header, one role-labelled line per message, and the
  footer. The lines stand in the order in which the client returned the turns, and the
  messages of a turn in the order they have in it: the hook neither sorts nor reverses.
  When the client returns no turn, the system prompt is unchanged. The call of the model
  comes after.
\<close>

theorem C7_history_loaded_before_turn:
  assumes "new_memory_client E = Inr client" and "\<forall>p. new_memory_provider E p = None"
    and "new_agent E = None"
    and "get_default payload ''user_id'' ''default-user'' = user_id"
    and "user_id \<noteq> []" and "sid \<noteq> []"
    and "get_last_k_turns client (memory_calls w) session_memory_id (JStr user_id) (JStr sid)
           5 ''main'' = Inr turns"
  shows "\<exists>w1 prov.
           game_analyst_agent_setup ptext E w payload (Some sid)
             = (w1, Inr (client, prov,
                  \<lparr> system_prompt =
                      ptext @ (if turns = [] then []
                               else history_header
                                    @ join ''\<newline>'' (map format_line (concat turns))
                                    @ history_footer),
                    state = agent_state user_id (Some sid),
                    messages = [] \<rparr>))
           \<and> memory_calls w1
               = memory_calls w
                   @ [GetLastKTurns session_memory_id (JStr user_id) (JStr sid) 5 ''main'']
           \<and> game_analyst_agent ptext E w payload (Some sid)
               = game_analyst_agent_try E w1 client prov
                   \<lparr> system_prompt =
                       ptext @ (if turns = [] then []
                                else history_header
                                     @ join ''\<newline>'' (map format_line (concat turns))
                                     @ history_footer),
                     state = agent_state user_id (Some sid),
                     messages = [] \<rparr> payload"
  by (simp add: game_analyst_agent_setup_loads [OF assms] game_analyst_agent_def)

lemma five_turns_context:
  "join ''\<newline>'' (map format_line (concat five_turns)) =
     ''User: q1\<newline>Assistant: a1\<newline>User: q2\<newline>Assistant: a2\<newline>User: q3\<newline>Assistant: a3\<newline>User: q4\<newline>Assistant: a4\<newline>User: q5\<newline>Assistant: a5''"
  by code_simp

theorem C7_witness:
  "\<exists>w1 prov.
     game_analyst_agent_setup ''You are an analyst.'' (services_of history_client no_call) world0
         [(''prompt'', ''and then?''), (''user_id'', ''alice'')] (Some ''s1'')
       = (w1, Inr (history_client, prov,
            \<lparr> system_prompt =
                ''You are an analyst.'' @ history_header
                  @ ''User: q1\<newline>Assistant: a1\<newline>User: q2\<newline>Assistant: a2\<newline>User: q3\<newline>Assistant: a3\<newline>User: q4\<newline>Assistant: a4\<newline>User: q5\<newline>Assistant: a5''
                  @ history_footer,
              state = agent_state ''alice'' (Some ''s1''),
              messages = [] \<rparr>))
     \<and> memory_calls w1
         = [GetLastKTurns session_memory_id (JStr ''alice'') (JStr ''s1'') 5 ''main'']"
proof -
  let ?E = "services_of history_client no_call"
  let ?payload = "[(''prompt'', ''and then?''), (''user_id'', ''alice'')]"
  have p1: "new_memory_client ?E = Inr history_client" by (simp add: services_of_def)
  have p2: "\<forall>p. new_memory_provider ?E p = None" by (simp add: services_of_def)
  have p3: "new_agent ?E = None" by (simp add: services_of_def)
  have p4: "get_default ?payload ''user_id'' ''default-user'' = ''alice''"
    by (simp add: get_default_def)
  have p5: "''alice'' \<noteq> []" and p6: "''s1'' \<noteq> []" by simp_all
  have p7: "get_last_k_turns history_client (memory_calls world0) session_memory_id
              (JStr ''alice'') (JStr ''s1'') 5 ''main'' = Inr five_turns"
    by (simp add: history_client_def)
  have five: "five_turns \<noteq> []" by (simp add: five_turns_def)
  have none: "memory_calls world0 = []" by (simp add: world0_def)
  from C7_history_loaded_before_turn [OF p1 p2 p3 p4 p5 p6 p7, of "''You are an analyst.''"]
  obtain w1 prov where
    "game_analyst_agent_setup ''You are an analyst.'' ?E world0 ?payload (Some ''s1'')
       = (w1, Inr (history_client, prov,
            \<lparr> system_prompt =
                ''You are an analyst.''
                  @ (if five_turns = [] then []
                     else history_header
                          @ join ''\<newline>'' (map format_line (concat five_turns))
                          @ history_footer),
              state = agent_state ''alice'' (Some ''s1''),
              messages = [] \<rparr>))"
    and "memory_calls w1
         = memory_calls world0
             @ [GetLastKTurns session_memory_id (JStr ''alice'') (JStr ''s1'') 5 ''main'']"
    by blast
  then have
    "game_analyst_agent_setup ''You are an analyst.'' ?E world0 ?payload (Some ''s1'')
       = (w1, Inr (history_client, prov,
            \<lparr> system_prompt =
                ''You are an analyst.'' @ history_header
                  @ ''User: q1\<newline>Assistant: a1\<newline>User: q2\<newline>Assistant: a2\<newline>User: q3\<newline>Assistant: a3\<newline>User: q4\<newline>Assistant: a4\<newline>User: q5\<newline>Assistant: a5''
                  @ history_footer,
              state = agent_state ''alice'' (Some ''s1''),
              messages = [] \<rparr>))
     \<and> memory_calls w1
         = [GetLastKTurns session_memory_id (JStr ''alice'') (JStr ''s1'') 5 ''main'']"
    by (simp only: five if_False five_turns_context none append_Nil simp_thms)
  then show ?thesis by blast
qed

lemma five_turns_reversed_context:
  "join ''\<newline>'' (map format_line (concat (take 5 (rev five_turns)))) =
     ''User: q5\<newline>Assistant: a5\<newline>User: q4\<newline>Assistant: a4\<newline>User: q3\<newline>Assistant: a3\<newline>User: q2\<newline>Assistant: a2\<newline>User: q1\<newline>Assistant: a1''"
  by code_simp

text \<open>
  The claim C7 fails on the code: the order of the lines is the order of the client's answer,
  which the repository does not decide. For a store that holds the turns 1 to 5 of (alice,
  s1) and whose client answers the most recent turn first, the system prompt lists turn 5
  first and turn 1 last, and is not the chronological one.
\<close>

theorem C7_counterexample:
  "get_last_k_turns newest_first_client [] session_memory_id (JStr ''alice'') (JStr ''s1'')
       5 ''main''
     = Inr [turn_of ''5'', turn_of ''4'', turn_of ''3'', turn_of ''2'', turn_of ''1'']
   \<and> prompt_before_turn ''You are an analyst.'' (services_of newest_first_client no_call)
         world0 [(''prompt'', ''and then?''), (''user_id'', ''alice'')] (Some ''s1'')
       = Some (''You are an analyst.''
                 @ ''\<newline>\<newline>Recent conversation history:\<newline>''
                 @ ''User: q5\<newline>Assistant: a5\<newline>User: q4\<newline>Assistant: a4\<newline>User: q3\<newline>Assistant: a3\<newline>User: q2\<newline>Assistant: a2\<newline>User: q1\<newline>Assistant: a1''
                 @ ''\<newline>\<newline>Continue the conversation naturally based on this context.'')
   \<and> chronological_prompt ''You are an analyst.'' five_turns
       = ''You are an analyst.''
           @ ''\<newline>\<newline>Recent conversation history:\<newline>''
           @ ''User: q1\<newline>Assistant: a1\<newline>User: q2\<newline>Assistant: a2\<newline>User: q3\<newline>Assistant: a3\<newline>User: q4\<newline>Assistant: a4\<newline>User: q5\<newline>Assistant: a5''
           @ ''\<newline>\<newline>Continue the conversation naturally based on this context.''
   \<and> prompt_before_turn ''You are an analyst.'' (services_of newest_first_client no_call)
         world0 [(''prompt'', ''and then?''), (''user_id'', ''alice'')] (Some ''s1'')
       \<noteq> Some (chronological_prompt ''You are an analyst.'' five_turns)"
proof -
  let ?E = "services_of newest_first_client no_call"
  let ?payload = "[(''prompt'', ''and then?''), (''user_id'', ''alice'')]"
  have p1: "new_memory_client ?E = Inr newest_first_client" by (simp add: services_of_def)
  have p2: "\<forall>p. new_memory_provider ?E p = None" by (simp add: services_of_def)
  have p3: "new_agent ?E = None" by (simp add: services_of_def)
  have p4: "get_default ?payload ''user_id'' ''default-user'' = ''alice''"
    by (simp add: get_default_def)
  have p5: "''alice'' \<noteq> []" and p6: "''s1'' \<noteq> []" by simp_all
  have p7: "get_last_k_turns newest_first_client (memory_calls world0) session_memory_id
              (JStr ''alice'') (JStr ''s1'') 5 ''main'' = Inr (take 5 (rev five_turns))"
    by (simp add: newest_first_client_def)
  have ne: "take 5 (rev five_turns) \<noteq> []" by (simp add: five_turns_def)
  have answered: "get_last_k_turns newest_first_client [] session_memory_id (JStr ''alice'')
        (JStr ''s1'') 5 ''main''
      = Inr [turn_of ''5'', turn_of ''4'', turn_of ''3'', turn_of ''2'', turn_of ''1'']"
    by (simp add: newest_first_client_def five_turns_def)
  have loaded: "prompt_before_turn ''You are an analyst.'' ?E world0 ?payload (Some ''s1'')
      = Some (''You are an analyst.''
                @ ''\<newline>\<newline>Recent conversation history:\<newline>''
                @ ''User: q5\<newline>Assistant: a5\<newline>User: q4\<newline>Assistant: a4\<newline>User: q3\<newline>Assistant: a3\<newline>User: q2\<newline>Assistant: a2\<newline>User: q1\<newline>Assistant: a1''
                @ ''\<newline>\<newline>Continue the conversation naturally based on this context.'')"
    unfolding prompt_before_turn_def
      game_analyst_agent_setup_loads [OF p1 p2 p3 p4 p5 p6 p7, of "''You are an analyst.''"]
    by (simp only: ne if_False five_turns_reversed_context history_header_def
        history_footer_def snd_conv sum.case prod.case agent.simps)
  have claimed: "chronological_prompt ''You are an analyst.'' five_turns
      = ''You are an analyst.''
          @ ''\<newline>\<newline>Recent conversation history:\<newline>''
          @ ''User: q1\<newline>Assistant: a1\<newline>User: q2\<newline>Assistant: a2\<newline>User: q3\<newline>Assistant: a3\<newline>User: q4\<newline>Assistant: a4\<newline>User: q5\<newline>Assistant: a5''
          @ ''\<newline>\<newline>Continue the conversation naturally based on this context.''"
    by (simp only: chronological_prompt_def five_turns_context)
  have differ: "prompt_before_turn ''You are an analyst.'' ?E world0 ?payload (Some ''s1'')
      \<noteq> Some (chronological_prompt ''You are an analyst.'' five_turns)"
    unfolding loaded claimed by simp
  show ?thesis
    by (intro conjI) (rule answered, rule loaded, rule claimed, rule differ)
qed

text \<open>
  C8, as the code has it. When a message is added and the agent state holds an actor and a
  session id, the callback makes one \<^verbatim>\<open>create_event\<close> call on the short-term memory with
  the single entry (text of the first block, role), provided the first content block of
  the message has a \<^verbatim>\<open>text\<close>; for a message whose first block has none, such as a
  tool-result message or a tool-use message that starts with the tool use, the subscript
  raises inside the \<^verbatim>\<open>try\<close> and no call is made. This happens at every added message,
  whatever \<^verbatim>\<open>save_memories\<close> does at the end of the turn.
\<close>

theorem C8_session_log_per_message:
  "analyst_step client (MessageAdded m) (tm, (a, calls)) =
     ((tm, (a\<lparr>messages := messages a @ [m]\<rparr>,
            if ids_present a \<and> content m \<noteq> [] \<and> has_key (hd (content m)) ''text''
            then calls @ [CreateEvent session_memory_id (dict_get (state a) ''actor_id'')
                            (dict_get (state a) ''session_id'') [(first_text m, role m)]]
            else calls)), None)"
  by (cases "content m")
    (auto simp: on_message_added_def on_message_added_body_def logged_and_dropped_def
      ids_present_def Let_def last_item_def first_item_def dict_item_def has_key_def
      first_text_def dict_get_def split: sum.splits option.splits)

theorem C8_witness:
  "analyst_step quiet_client (MessageAdded (user_says ''q'')) ([], (agent_with [], [])) =
     (([], (agent_with [user_says ''q''],
            [CreateEvent session_memory_id (JStr ''alice'') (JStr ''s1'')
               [(JStr ''q'', ''user'')]])), None)"
  using C8_session_log_per_message [where client = quiet_client and m = "user_says ''q''"
      and tm = "[]" and a = "agent_with []" and calls = "[]"]
  by (simp add: agent_with_def ids_present_def agent_state_def dict_get_def has_key_def
      user_says_def first_text_def)

text \<open>
  The claim C8 fails on the code: adding a tool-result message, or a tool-use message,
  with both ids present and a memory client that accepts every call, makes no call.
\<close>

theorem C8_counterexample:
  "ids_present (agent_with [user_says ''q'', tool_use])
   \<and> snd (snd (fst (analyst_step quiet_client (MessageAdded tool_result)
                     ([], (agent_with [user_says ''q'', tool_use], []))))) = []
   \<and> snd (snd (fst (analyst_step quiet_client (MessageAdded tool_use)
                     ([], (agent_with [user_says ''q''], []))))) = []"
  by (simp add: on_message_added_def on_message_added_body_def logged_and_dropped_def
      agent_with_def agent_state_def dict_get_def ids_present_def Let_def last_item_def
      first_item_def dict_item_def tool_result_def tool_use_def)

section \<open>Properties of the orchestrator with memory\<close>















lemma answer_text_answer:
  "answer_text (answer t) = Inr (JStr t)"
  "metrics_summary (answer t) = JObj []"
  by (simp_all add: answer_text_def answer_def assistant_says_def first_item_def dict_item_def)



section \<open>Properties of the entrypoints\<close>

lemma error_string_returns:
  "snd (error_string r)
     = Inr (case snd r of Inl e \<Rightarrow> JStr (''error '' @ str_exn e) | Inr v \<Rightarrow> v)"
  by (simp add: error_string_def split: sum.splits)

lemma with_kb_client_result:
  "mcp_start E = None \<Longrightarrow>
   snd (with_kb_client E kb w body) = snd (body (w\<lparr>kb_events := kb_events w @ [Start kb]\<rparr>))"
  by (simp add: with_kb_client_def Let_def)

lemma memory_turn_result:
  assumes "list_tools_sync E = None" and "new_agent E = None"
  shows "snd (memory_turn ptext E client prov project_id sid payload w)
     = (case snd (agent_call E (Some prov)
                   \<lparr> system_prompt = ptext, state = agent_state project_id sid, messages = [] \<rparr>
                   (map_of payload ''prompt'')) of
          Inl e \<Rightarrow> Inl e
        | Inr res \<Rightarrow>
            (case answer_text res of
               Inl e \<Rightarrow> Inl e
             | Inr answer_txt \<Rightarrow>
                 Inr (JObj [(''response'', answer_txt), (''metrics'', metrics_summary res)])))"
  using assms
  by (simp add: memory_turn_def Let_def specialist_run_returns split: sum.splits)





lemma memory_specialist_result:
  assumes "reaches_call E"
  shows "snd (lore_agent ptext E w payload sid)
     = Inr (case snd (agent_call E (Some (lore_provider payload sid))
                       \<lparr> system_prompt = ptext,
                         state = agent_state (get_default payload ''project_id''
                                   ''new-world-aternum'') sid,
                         messages = [] \<rparr> (map_of payload ''prompt'')) of
              Inl e \<Rightarrow> JStr (''error '' @ str_exn e)
            | Inr res \<Rightarrow>
                (case answer_text res of
                   Inl e \<Rightarrow> JStr (''error '' @ str_exn e)
                 | Inr answer_txt \<Rightarrow>
                     JObj [(''response'', answer_txt), (''metrics'', metrics_summary res)]))"
    and "snd (strategy_agent ptext E w payload sid)
     = Inr (case snd (agent_call E (Some (strategy_provider payload sid))
                       \<lparr> system_prompt = ptext,
                         state = agent_state (get_default payload ''project_id''
                                   ''new-world-aternum'') sid,
                         messages = [] \<rparr> (map_of payload ''prompt'')) of
              Inl e \<Rightarrow> JStr (''error '' @ str_exn e)
            | Inr res \<Rightarrow>
                (case answer_text res of
                   Inl e \<Rightarrow> JStr (''error '' @ str_exn e)
                 | Inr answer_txt \<Rightarrow>
                     JObj [(''response'', answer_txt), (''metrics'', metrics_summary res)]))"
    and "snd (gameplay_agent ptext E w payload sid)
     = Inr (case snd (agent_call E (Some (gameplay_provider payload sid))
                       \<lparr> system_prompt = ptext,
                         state = agent_state (get_default payload ''project_id''
                                   ''new-world-aternum'') sid,
                         messages = [] \<rparr> (map_of payload ''prompt'')) of
              Inl e \<Rightarrow> JStr (''error '' @ str_exn e)
            | Inr res \<Rightarrow>
                (case answer_text res of
                   Inl e \<Rightarrow> JStr (''error '' @ str_exn e)
                 | Inr answer_txt \<Rightarrow>
                     JObj [(''response'', answer_txt), (''metrics'', metrics_summary res)]))"
proof -
  from assms obtain client where c: "new_memory_client E = Inr client"
    by (cases "new_memory_client E") (simp_all add: reaches_call_def)
  from assms have p: "\<And>p. new_memory_provider E p = None" and m: "mcp_start E = None"
    and l: "list_tools_sync E = None" and n: "new_agent E = None"
    by (simp_all add: reaches_call_def)
  show "snd (lore_agent ptext E w payload sid)
     = Inr (case snd (agent_call E (Some (lore_provider payload sid))
                       \<lparr> system_prompt = ptext,
                         state = agent_state (get_default payload ''project_id''
                                   ''new-world-aternum'') sid,
                         messages = [] \<rparr> (map_of payload ''prompt'')) of
              Inl e \<Rightarrow> JStr (''error '' @ str_exn e)
            | Inr res \<Rightarrow>
                (case answer_text res of
                   Inl e \<Rightarrow> JStr (''error '' @ str_exn e)
                 | Inr answer_txt \<Rightarrow>
                     JObj [(''response'', answer_txt), (''metrics'', metrics_summary res)]))"
    by (simp add: lore_agent_def Let_def error_string_returns c p
        with_kb_client_result [OF m] memory_turn_result [OF l n] split: sum.splits)
  show "snd (strategy_agent ptext E w payload sid)
     = Inr (case snd (agent_call E (Some (strategy_provider payload sid))
                       \<lparr> system_prompt = ptext,
                         state = agent_state (get_default payload ''project_id''
                                   ''new-world-aternum'') sid,
                         messages = [] \<rparr> (map_of payload ''prompt'')) of
              Inl e \<Rightarrow> JStr (''error '' @ str_exn e)
            | Inr res \<Rightarrow>
                (case answer_text res of
                   Inl e \<Rightarrow> JStr (''error '' @ str_exn e)
                 | Inr answer_txt \<Rightarrow>
                     JObj [(''response'', answer_txt), (''metrics'', metrics_summary res)]))"
    by (simp add: strategy_agent_def Let_def error_string_returns c p
        with_kb_client_result [OF m] memory_turn_result [OF l n] split: sum.splits)
  show "snd (gameplay_agent ptext E w payload sid)
     = Inr (case snd (agent_call E (Some (gameplay_provider payload sid))
                       \<lparr> system_prompt = ptext,
                         state = agent_state (get_default payload ''project_id''
                                   ''new-world-aternum'') sid,
                         messages = [] \<rparr> (map_of payload ''prompt'')) of
              Inl e \<Rightarrow> JStr (''error '' @ str_exn e)
            | Inr res \<Rightarrow>
                (case answer_text res of
                   Inl e \<Rightarrow> JStr (''error '' @ str_exn e)
                 | Inr answer_txt \<Rightarrow>
                     JObj [(''response'', answer_txt), (''metrics'', metrics_summary res)]))"
    by (simp add: gameplay_agent_def Let_def error_string_returns c p
        with_kb_client_result [OF m] memory_turn_result [OF l n] split: sum.splits)
qed







lemma services_reach_call: "reaches_call (services_of client call)"
  by (simp add: reaches_call_def services_of_def)



section \<open>The connection to the knowledge base\<close>

lemma error_string_world: "fst (error_string r) = fst r"
  by (simp add: error_string_def split: sum.splits)

lemma memory_turn_kb:
  "kb_events (fst (memory_turn ptext E client prov project_id sid payload w)) = kb_events w"
  "kb_clients (fst (memory_turn ptext E client prov project_id sid payload w)) = kb_clients w"
  by (simp_all add: memory_turn_def Let_def split: option.splits sum.splits)

lemma basic_turn_world: "fst (basic_turn with_metrics ptext E payload w) = w"
  by (simp add: basic_turn_def Let_def split: option.splits sum.splits)

lemma with_kb_client_kb:
  assumes "\<And>w. kb_events (fst (body w)) = kb_events w"
    and "\<And>w. kb_clients (fst (body w)) = kb_clients w"
  shows "kb_events (fst (with_kb_client E kb w body))
           = kb_events w @ (case mcp_start E of None \<Rightarrow> [Start kb, Stop kb] | Some e \<Rightarrow> [])"
    and "kb_clients (fst (with_kb_client E kb w body)) = kb_clients w"
  by (simp_all add: with_kb_client_def Let_def assms split: option.splits)

lemma memory_with_kb:
  "kb_events (fst (with_kb_client E kb w (memory_turn ptext E client prov project_id sid payload)))
     = kb_events w @ (case mcp_start E of None \<Rightarrow> [Start kb, Stop kb] | Some e \<Rightarrow> [])"
  "kb_clients (fst (with_kb_client E kb w (memory_turn ptext E client prov project_id sid payload)))
     = kb_clients w"
  by (rule with_kb_client_kb; simp add: memory_turn_kb)+

lemma basic_with_kb:
  "kb_events (fst (with_kb_client E kb w (basic_turn with_metrics ptext E payload)))
     = kb_events w @ (case mcp_start E of None \<Rightarrow> [Start kb, Stop kb] | Some e \<Rightarrow> [])"
  "kb_clients (fst (with_kb_client E kb w (basic_turn with_metrics ptext E payload)))
     = kb_clients w"
  by (rule with_kb_client_kb; simp add: basic_turn_world)+

lemma specialist_kb:
  assumes "is_specialist ep"
  shows "\<exists>entered.
           kb_events (fst (invoke ep ptext E w payload sid))
             = kb_events w
                 @ (if entered then [Start (kb_clients w), Stop (kb_clients w)] else [])
           \<and> (entered \<longrightarrow> kb_clients (fst (invoke ep ptext E w payload sid)) = Suc (kb_clients w))
           \<and> kb_clients w \<le> kb_clients (fst (invoke ep ptext E w payload sid))
           \<and> (enters E \<longrightarrow> entered)"
proof -
  have basic: "\<exists>entered.
           kb_events (fst (basic_specialist b ptext E w payload))
             = kb_events w
                 @ (if entered then [Start (kb_clients w), Stop (kb_clients w)] else [])
           \<and> (entered \<longrightarrow> kb_clients (fst (basic_specialist b ptext E w payload))
                 = Suc (kb_clients w))
           \<and> kb_clients w \<le> kb_clients (fst (basic_specialist b ptext E w payload))
           \<and> (enters E \<longrightarrow> entered)" for b
    by (rule exI [of _ "mcp_start E = None"])
      (simp add: basic_specialist_def error_string_world new_kb_client_def Let_def
        basic_with_kb enters_def split: option.splits)
  show ?thesis
  proof (cases ep)
    case LoreMemory
    show ?thesis
      by (rule exI [of _ "\<not> isl (new_memory_client E)
            \<and> new_memory_provider E (lore_provider payload sid) = None \<and> mcp_start E = None"])
        (auto simp: LoreMemory lore_agent_def error_string_world new_kb_client_def Let_def
          memory_with_kb enters_def split: option.splits sum.splits)
  next
    case StrategyMemory
    show ?thesis
      by (rule exI [of _ "\<not> isl (new_memory_client E)
            \<and> new_memory_provider E (strategy_provider payload sid) = None
            \<and> mcp_start E = None"])
        (auto simp: StrategyMemory strategy_agent_def error_string_world new_kb_client_def
          Let_def memory_with_kb enters_def split: option.splits sum.splits)
  next
    case GameplayMemory
    show ?thesis
      by (rule exI [of _ "\<not> isl (new_memory_client E)
            \<and> new_memory_provider E (gameplay_provider payload sid) = None
            \<and> mcp_start E = None"])
        (auto simp: GameplayMemory gameplay_agent_def error_string_world new_kb_client_def
          Let_def memory_with_kb enters_def split: option.splits sum.splits)
  qed (use assms basic in \<open>simp_all add: lore_agent_basic_def gameplay_agent_basic_def
         strategy_agent_basic_def lore_agent_kiro_def\<close>)
qed

lemma still_open_append:
  "still_open (evs @ [Start k, Stop k]) = still_open evs"
  by (simp add: still_open_def)

lemma started_between_append:
  "kb_events w' = kb_events w @ added \<Longrightarrow>
   started_between w w' = concat (map (\<lambda>ev. case ev of Start k \<Rightarrow> [k] | Stop k \<Rightarrow> []) added)"
  by (simp add: started_between_def)

text \<open>
  C9. An invocation of a specialist makes its own client of the knowledge base, numbered
  by the count of clients made before it, and either never starts a connection or starts
  the connection of that client and stops it before it returns, whatever the tool listing,
  the construction of the agent and the call of the model do: the connections open after
  the invocation are those open before it. When the memory client and the provider can be
  made and the connection can be started, the connection is started and stopped. The
  connections started by two invocations in sequence are different.
\<close>

theorem C9_connection_scoped:
  assumes "is_specialist ep" and "is_specialist ep_next"
  shows "still_open (kb_events (fst (invoke ep ptext E w payload sid))) = still_open (kb_events w)
    \<and> (kb_events (fst (invoke ep ptext E w payload sid)) = kb_events w
        \<or> kb_events (fst (invoke ep ptext E w payload sid))
            = kb_events w @ [Start (kb_clients w), Stop (kb_clients w)]
          \<and> kb_clients (fst (invoke ep ptext E w payload sid)) = Suc (kb_clients w))
    \<and> (enters E \<longrightarrow>
          kb_events (fst (invoke ep ptext E w payload sid))
            = kb_events w @ [Start (kb_clients w), Stop (kb_clients w)])
    \<and> set (started_between w (fst (invoke ep ptext E w payload sid)))
        \<inter> set (started_between (fst (invoke ep ptext E w payload sid))
                 (fst (invoke ep_next ptext_next E_next (fst (invoke ep ptext E w payload sid))
                         payload_next sid_next))) = {}"
proof -
  let ?w1 = "fst (invoke ep ptext E w payload sid)"
  let ?w2 = "fst (invoke ep_next ptext_next E_next ?w1 payload_next sid_next)"
  from specialist_kb [OF assms(1), of ptext E w payload sid] obtain entered where
    ev1: "kb_events ?w1
            = kb_events w @ (if entered then [Start (kb_clients w), Stop (kb_clients w)] else [])"
    and n1: "entered \<longrightarrow> kb_clients ?w1 = Suc (kb_clients w)"
    and le1: "kb_clients w \<le> kb_clients ?w1"
    and en1: "enters E \<longrightarrow> entered"
    by blast
  from specialist_kb [OF assms(2), of ptext_next E_next ?w1 payload_next sid_next] obtain entered2 where
    ev2: "kb_events ?w2
            = kb_events ?w1
                @ (if entered2 then [Start (kb_clients ?w1), Stop (kb_clients ?w1)] else [])"
    by blast
  have s1: "started_between w ?w1 = (if entered then [kb_clients w] else [])"
    by (simp add: started_between_append [OF ev1])
  have s2: "started_between ?w1 ?w2 = (if entered2 then [kb_clients ?w1] else [])"
    by (simp add: started_between_append [OF ev2])
  have apart: "set (started_between w ?w1) \<inter> set (started_between ?w1 ?w2) = {}"
  proof (cases entered)
    case True
    with n1 have "kb_clients ?w1 \<noteq> kb_clients w" by simp
    with True show ?thesis by (simp add: s1 s2)
  next
    case False
    then show ?thesis by (simp add: s1)
  qed
  have op: "still_open (kb_events ?w1) = still_open (kb_events w)"
    by (simp add: ev1 still_open_append)
  from ev1 n1 en1 op apart show ?thesis by auto
qed

theorem C9_witness:
  "is_specialist LoreMemory \<and> is_specialist GameplayBasic \<and> enters tools_unlisted
   \<and> kb_events (fst (invoke LoreMemory ''Tell the lore.'' tools_unlisted world0 ask
                      (Some ''s1''))) = [Start 0, Stop 0]
   \<and> still_open (kb_events (fst (invoke LoreMemory ''Tell the lore.'' tools_unlisted world0 ask
                                  (Some ''s1'')))) = []
   \<and> set (started_between world0
            (fst (invoke LoreMemory ''Tell the lore.'' tools_unlisted world0 ask (Some ''s1''))))
       \<inter> set (started_between
                (fst (invoke LoreMemory ''Tell the lore.'' tools_unlisted world0 ask
                        (Some ''s1'')))
                (fst (invoke GameplayBasic ''Play.'' (services_of quiet_client failing_call)
                        (fst (invoke LoreMemory ''Tell the lore.'' tools_unlisted world0 ask
                                (Some ''s1'')))
                        ask None))) = {}"
proof -
  have s: "is_specialist LoreMemory" "is_specialist GameplayBasic" by simp_all
  have e: "enters tools_unlisted"
    by (simp add: enters_def tools_unlisted_def services_of_def)
  have w: "kb_events world0 = []" "kb_clients world0 = 0" "still_open [] = []"
    "still_open [Start 0, Stop 0] = []"
    by (simp_all add: world0_def still_open_def)
  from C9_connection_scoped [OF s, where E = tools_unlisted and w = world0
      and ptext = "''Tell the lore.''" and payload = ask and sid = "Some ''s1''"
      and ptext_next = "''Play.''" and E_next = "services_of quiet_client failing_call"
      and payload_next = ask and sid_next = None] e s
  show ?thesis by (simp add: w)
qed

section \<open>The memory of the specialists\<close>

lemma agent_state_actor: "dict_get (agent_state actor sid) ''actor_id'' = JStr actor"
  by (simp add: agent_state_def dict_get_def)

lemma save_memories_agent: "fst (fst (save_memories client memory_id (a, calls))) = a"
  by (simp add: save_memories_def save_memories_body_def logged_and_dropped_def Let_def
      split: sum.splits)

lemma save_memories_written:
  assumes "dict_get (state a) ''actor_id'' = JStr actor"
  shows "\<exists>new. snd (fst (save_memories client memory_id (a, calls))) = calls @ new
           \<and> (\<forall>op \<in> set new. written_by memory_id actor op)"
proof (cases "selected_pair (messages a)")
  case None
  then show ?thesis by (simp add: save_memories_calls)
next
  case (Some p)
  obtain u t where "p = (u, t)" by (cases p)
  with Some assms show ?thesis
    by (simp add: save_memories_calls written_by_def)
qed

lemma specialist_run_written:
  assumes "dict_get (state a) ''actor_id'' = JStr actor"
  shows "\<exists>new. snd (fst (run_events (specialist_step client memory_id) evs (a, calls)))
                 = calls @ new
           \<and> (\<forall>op \<in> set new. written_by memory_id actor op)"
  using assms
proof (induction evs arbitrary: a calls)
  case Nil
  show ?case by simp
next
  case (Cons ev evs)
  show ?case
  proof (cases ev)
    case (MessageAdded m)
    from Cons.prems have "dict_get (state (a\<lparr>messages := messages a @ [m]\<rparr>)) ''actor_id''
        = JStr actor" by simp
    from Cons.IH [OF this, of calls] show ?thesis by (simp add: MessageAdded)
  next
    case (ToolCall t p R)
    from Cons.IH [OF Cons.prems, of calls] show ?thesis by (simp add: ToolCall)
  next
    case AfterInvocation
    obtain a' calls' x where s: "save_memories client memory_id (a, calls) = ((a', calls'), x)"
      by (cases "save_memories client memory_id (a, calls)") auto
    with save_memories_returns [of client memory_id "(a, calls)"] have x: "x = None" by simp
    from s save_memories_agent [of client memory_id a calls] have a': "a' = a" by simp
    from s save_memories_written [OF Cons.prems, of client memory_id calls]
    obtain n1 where n1: "calls' = calls @ n1" "\<forall>op \<in> set n1. written_by memory_id actor op"
      by auto
    from Cons.IH [OF Cons.prems, of calls'] obtain n2 where
      n2: "snd (fst (run_events (specialist_step client memory_id) evs (a, calls')))
             = calls' @ n2" "\<forall>op \<in> set n2. written_by memory_id actor op"
      by blast
    have "snd (fst (run_events (specialist_step client memory_id) (ev # evs) (a, calls)))
            = calls @ (n1 @ n2)"
      using n2(1) by (simp add: AfterInvocation s x a' n1(1))
    moreover have "\<forall>op \<in> set (n1 @ n2). written_by memory_id actor op"
      using n1(2) n2(2) by auto
    ultimately show ?thesis by blast
  qed
qed

lemma memory_turn_written:
  "\<exists>new. memory_calls (fst (memory_turn ptext E client prov project_id sid payload w))
            = memory_calls w @ new
         \<and> (\<forall>op \<in> set new. written_by (provider_memory_id prov) project_id op)"
proof -
  let ?a = "\<lparr> system_prompt = ptext, state = agent_state project_id sid, messages = [] \<rparr>"
  have "dict_get (state ?a) ''actor_id'' = JStr project_id" by (simp add: agent_state_actor)
  from specialist_run_written [OF this, of client "provider_memory_id prov"
      "fst (agent_call E (Some prov) ?a (map_of payload ''prompt''))" "memory_calls w"]
  obtain new where
    "snd (fst (run_events (specialist_step client (provider_memory_id prov))
                 (fst (agent_call E (Some prov) ?a (map_of payload ''prompt'')))
                 (?a, memory_calls w))) = memory_calls w @ new"
    and "\<forall>op \<in> set new. written_by (provider_memory_id prov) project_id op"
    by blast
  then show ?thesis
    by (cases "list_tools_sync E"; cases "new_agent E")
      (auto simp: memory_turn_def Let_def split: sum.splits)
qed

lemma with_kb_client_calls:
  "memory_calls (fst (with_kb_client E kb w body))
     = (case mcp_start E of
          Some e \<Rightarrow> memory_calls w
        | None \<Rightarrow> memory_calls (fst (body (w\<lparr>kb_events := kb_events w @ [Start kb]\<rparr>))))"
  by (simp add: with_kb_client_def Let_def split: option.splits)

lemma with_memory_turn_written:
  "\<exists>new. memory_calls (fst (with_kb_client E kb w
                               (memory_turn ptext E client prov project_id sid payload)))
            = memory_calls w @ new
         \<and> (\<forall>op \<in> set new. written_by (provider_memory_id prov) project_id op)"
proof (cases "mcp_start E")
  case None
  from memory_turn_written [of ptext E client prov project_id sid payload
      "w\<lparr>kb_events := kb_events w @ [Start kb]\<rparr>"]
  show ?thesis by (simp add: with_kb_client_calls None)
next
  case (Some e)
  then show ?thesis by (simp add: with_kb_client_calls)
qed

lemma memory_specialist_written:
  assumes "memory_provider ep payload sid = Some prov"
  shows "\<exists>new. memory_calls (fst (invoke ep ptext E w payload sid)) = memory_calls w @ new
           \<and> (\<forall>op \<in> set new. written_by (provider_memory_id prov) (project_id_of payload) op)"
proof -
  have none: "\<exists>new. memory_calls w1 = memory_calls w1 @ new
           \<and> (\<forall>op \<in> set new. written_by (provider_memory_id prov) (project_id_of payload) op)"
    for w1 :: world
    by (rule exI [of _ "[]"]) simp
  note turn = with_memory_turn_written [of E _ _ ptext _ prov "project_id_of payload" sid payload]
  show ?thesis
  proof (cases ep)
    case LoreMemory
    with assms have p: "prov = lore_provider payload sid" by simp
    show ?thesis
      using none [of "snd (new_kb_client w)"]
        turn [of "fst (new_kb_client w)" "snd (new_kb_client w)"]
      by (cases "new_memory_client E";
          cases "new_memory_provider E (lore_provider payload sid)")
        (simp_all add: LoreMemory lore_agent_def error_string_world Let_def p
          project_id_of_def new_kb_client_def)
  next
    case StrategyMemory
    with assms have p: "prov = strategy_provider payload sid" by simp
    show ?thesis
      using none [of "snd (new_kb_client w)"]
        turn [of "fst (new_kb_client w)" "snd (new_kb_client w)"]
      by (cases "new_memory_client E";
          cases "new_memory_provider E (strategy_provider payload sid)")
        (simp_all add: StrategyMemory strategy_agent_def error_string_world Let_def p
          project_id_of_def new_kb_client_def)
  next
    case GameplayMemory
    with assms have p: "prov = gameplay_provider payload sid" by simp
    show ?thesis
      using none [of "snd (new_kb_client w)"] none [of w]
        turn [of "fst (new_kb_client w)" "snd (new_kb_client w)"]
      by (cases "new_memory_client E";
          cases "new_memory_provider E (gameplay_provider payload sid)")
        (simp_all add: GameplayMemory gameplay_agent_def error_string_world Let_def p
          project_id_of_def new_kb_client_def)
  qed (use assms in simp_all)
qed

lemma memory_turn_prompt:
  "map_of payload' ''prompt'' = map_of payload ''prompt'' \<Longrightarrow>
   memory_turn ptext E client prov project_id sid payload' w
     = memory_turn ptext E client prov project_id sid payload w"
  unfolding memory_turn_def Let_def by (erule ssubst) (rule refl)

lemma providers_ignore_user:
  assumes "\<forall>k. k \<noteq> ''user_id'' \<longrightarrow> map_of payload' k = map_of payload k"
  shows "lore_provider payload' sid = lore_provider payload sid"
    and "strategy_provider payload' sid = strategy_provider payload sid"
    and "gameplay_provider payload' sid = gameplay_provider payload sid"
    and "get_default payload' ''project_id'' d = get_default payload ''project_id'' d"
    and "map_of payload' ''prompt'' = map_of payload ''prompt''"
proof -
  from assms have a: "map_of payload' ''project_id'' = map_of payload ''project_id''"
    and b: "map_of payload' ''prompt'' = map_of payload ''prompt''"
    by simp_all
  from a show "get_default payload' ''project_id'' d = get_default payload ''project_id'' d"
    by (simp add: get_default_def)
  from a show "lore_provider payload' sid = lore_provider payload sid"
    by (simp add: lore_provider_def get_default_def Let_def)
  from a show "strategy_provider payload' sid = strategy_provider payload sid"
    by (simp add: strategy_provider_def get_default_def Let_def)
  from a show "gameplay_provider payload' sid = gameplay_provider payload sid"
    by (simp add: gameplay_provider_def get_default_def Let_def)
  from b show "map_of payload' ''prompt'' = map_of payload ''prompt''" .
qed

lemma user_id_ignored:
  assumes "has_memory ep"
    and "\<forall>k. k \<noteq> ''user_id'' \<longrightarrow> map_of payload' k = map_of payload k"
  shows "invoke ep ptext E w payload' sid = invoke ep ptext E w payload sid"
proof -
  note same = providers_ignore_user [OF assms(2)]
  have turn: "memory_turn ptext E client prov project_id sid payload'
                = memory_turn ptext E client prov project_id sid payload"
    for client prov project_id
    by (rule ext) (rule memory_turn_prompt [OF same(5)])
  from assms(1) show ?thesis
  proof (cases ep)
    case LoreMemory
    show ?thesis
      unfolding LoreMemory invoke.simps lore_agent_def Let_def
      by (simp only: same(1-4) turn)
  next
    case StrategyMemory
    show ?thesis
      unfolding StrategyMemory invoke.simps strategy_agent_def Let_def
      by (simp only: same(1-4) turn)
  next
    case GameplayMemory
    show ?thesis
      unfolding GameplayMemory invoke.simps gameplay_agent_def Let_def
      by (simp only: same(1-4) turn)
  qed simp_all
qed

lemma memory_turn_only_provider:
  "memory_turn ptext (only_provider (Some prov) E) client prov project_id sid payload w
     = memory_turn ptext E client prov project_id sid payload w"
proof -
  have "list_tools_sync (only_provider (Some prov) E) = list_tools_sync E"
    and "new_agent (only_provider (Some prov) E) = new_agent E"
    and "agent_call (only_provider (Some prov) E) (Some prov) = agent_call E (Some prov)"
    by (simp_all add: only_provider_def)
  then show ?thesis
    unfolding memory_turn_def Let_def by (simp only:)
qed

lemma with_kb_client_only_provider:
  "with_kb_client (only_provider p E) kb w body = with_kb_client E kb w body"
proof -
  have "mcp_start (only_provider p E) = mcp_start E" by (simp add: only_provider_def)
  then show ?thesis unfolding with_kb_client_def by (simp only:)
qed

lemma only_provider_fields:
  "new_memory_client (only_provider p E) = new_memory_client E"
  "new_memory_provider (only_provider (Some prov) E) prov = new_memory_provider E prov"
  by (simp_all add: only_provider_def)

lemma one_provider_handed:
  assumes "has_memory ep"
  shows "invoke ep ptext (only_provider (memory_provider ep payload sid) E) w payload sid
           = invoke ep ptext E w payload sid"
proof -
  have turn: "memory_turn ptext (only_provider (Some prov) E) client prov project_id sid payload
                = memory_turn ptext E client prov project_id sid payload"
    for client prov project_id
    by (rule ext) (rule memory_turn_only_provider)
  from assms show ?thesis
  proof (cases ep)
    case LoreMemory
    show ?thesis
      unfolding LoreMemory invoke.simps memory_provider.simps lore_agent_def Let_def
      by (simp only: only_provider_fields with_kb_client_only_provider turn)
  next
    case StrategyMemory
    show ?thesis
      unfolding StrategyMemory invoke.simps memory_provider.simps strategy_agent_def Let_def
      by (simp only: only_provider_fields with_kb_client_only_provider turn)
  next
    case GameplayMemory
    show ?thesis
      unfolding GameplayMemory invoke.simps memory_provider.simps gameplay_agent_def Let_def
      by (simp only: only_provider_fields with_kb_client_only_provider turn)
  qed simp_all
qed

lemma provider_of_project:
  assumes "has_memory ep"
  shows "\<exists>prov. memory_provider ep payload sid = Some prov
           \<and> provider_actor_id prov = project_id_of payload
           \<and> provider_namespace prov = namespace_of ep (project_id_of payload)"
  using assms
  by (cases ep)
    (simp_all add: lore_provider_def strategy_provider_def gameplay_provider_def Let_def
      project_id_of_def)

text \<open>
  C10, as the code has it. A specialist with memory builds one memory provider, the only
  one it hands to the framework, whose actor is the project id and whose namespace is
  \<^verbatim>\<open>project/{project_id}/semantic\<close> for the lore and the strategy agent and
  \<^verbatim>\<open>project/gameplay/{project_id}/semantic\<close> for the gameplay agent; every event its hook
  writes goes to that provider's memory under the project id as actor; and two payloads
  that differ only in \<^verbatim>\<open>user_id\<close> give the same invocation: the same returned value and the
  same calls to the memory.
\<close>

theorem C10_project_scoped_memory:
  assumes "has_memory ep"
  shows "(\<exists>prov. memory_provider ep payload sid = Some prov
            \<and> provider_actor_id prov = project_id_of payload
            \<and> provider_namespace prov = namespace_of ep (project_id_of payload)
            \<and> (\<exists>new. memory_calls (fst (invoke ep ptext E w payload sid)) = memory_calls w @ new
                  \<and> (\<forall>op \<in> set new.
                        written_by (provider_memory_id prov) (project_id_of payload) op)))
       \<and> invoke ep ptext (only_provider (memory_provider ep payload sid) E) w payload sid
           = invoke ep ptext E w payload sid
       \<and> ((\<forall>k. k \<noteq> ''user_id'' \<longrightarrow> map_of payload' k = map_of payload k)
            \<longrightarrow> invoke ep ptext E w payload' sid = invoke ep ptext E w payload sid)"
proof -
  from provider_of_project [OF assms, of payload sid] obtain prov where
    p: "memory_provider ep payload sid = Some prov"
      "provider_actor_id prov = project_id_of payload"
      "provider_namespace prov = namespace_of ep (project_id_of payload)"
    by blast
  from memory_specialist_written [OF p(1), of ptext E w] p
  have first: "\<exists>prov. memory_provider ep payload sid = Some prov
            \<and> provider_actor_id prov = project_id_of payload
            \<and> provider_namespace prov = namespace_of ep (project_id_of payload)
            \<and> (\<exists>new. memory_calls (fst (invoke ep ptext E w payload sid)) = memory_calls w @ new
                  \<and> (\<forall>op \<in> set new.
                        written_by (provider_memory_id prov) (project_id_of payload) op))"
    by blast
  have second: "invoke ep ptext (only_provider (memory_provider ep payload sid) E) w payload sid
           = invoke ep ptext E w payload sid"
    by (rule one_provider_handed [OF assms])
  have third: "(\<forall>k. k \<noteq> ''user_id'' \<longrightarrow> map_of payload' k = map_of payload k)
            \<longrightarrow> invoke ep ptext E w payload' sid = invoke ep ptext E w payload sid"
    by (rule impI) (rule user_id_ignored [OF assms])
  show ?thesis
    by (intro conjI) (rule first, rule second, rule third)
qed

lemma ask_project_same:
  "\<forall>k. k \<noteq> ''user_id'' \<longrightarrow> map_of (ask_project ''bob'') k = map_of (ask_project ''alice'') k"
  by (simp add: ask_project_def)

lemma project_of_ask: "project_id_of (ask_project u) = ''nw''"
  by (simp add: project_id_of_def ask_project_def get_default_def)

theorem C10_witness:
  "has_memory LoreMemory
   \<and> map_of (ask_project ''bob'') ''user_id'' \<noteq> map_of (ask_project ''alice'') ''user_id''
   \<and> invoke LoreMemory ''Tell the lore.''
         (services_of quiet_client (namespace_call ''project/nw/semantic'')) world0
         (ask_project ''bob'') (Some ''s1'')
       = invoke LoreMemory ''Tell the lore.''
           (services_of quiet_client (namespace_call ''project/nw/semantic'')) world0
           (ask_project ''alice'') (Some ''s1'')
   \<and> (\<exists>prov. memory_provider LoreMemory (ask_project ''alice'') (Some ''s1'') = Some prov
          \<and> provider_actor_id prov = ''nw''
          \<and> provider_namespace prov = ''project/nw/semantic'')"
proof -
  have m: "has_memory LoreMemory" by simp
  note c = C10_project_scoped_memory [OF m, where payload = "ask_project ''alice''"
      and payload' = "ask_project ''bob''" and sid = "Some ''s1''" and w = world0
      and ptext = "''Tell the lore.''"
      and E = "services_of quiet_client (namespace_call ''project/nw/semantic'')"]
  from c ask_project_same
  have "invoke LoreMemory ''Tell the lore.''
         (services_of quiet_client (namespace_call ''project/nw/semantic'')) world0
         (ask_project ''bob'') (Some ''s1'')
       = invoke LoreMemory ''Tell the lore.''
           (services_of quiet_client (namespace_call ''project/nw/semantic'')) world0
           (ask_project ''alice'') (Some ''s1'')"
    by blast
  moreover from c
  have "\<exists>prov. memory_provider LoreMemory (ask_project ''alice'') (Some ''s1'') = Some prov
          \<and> provider_actor_id prov = ''nw''
          \<and> provider_namespace prov = ''project/nw/semantic''"
    by (simp add: project_of_ask)
  moreover
  have "map_of (ask_project ''bob'') ''user_id'' \<noteq> map_of (ask_project ''alice'') ''user_id''"
    by (simp add: ask_project_def)
  ultimately show ?thesis using m by blast
qed

text \<open>
  The claim C10 fails on the code for the gameplay agent: its namespace is
  \<^verbatim>\<open>project/gameplay/{project_id}/semantic\<close>, not \<^verbatim>\<open>project/{project_id}/semantic\<close>, so
  a model whose memory tools answer on the namespace of the claim is reached by the lore
  agent and not by the gameplay agent.
\<close>

theorem C10_counterexample:
  "memory_provider GameplayMemory (ask_project ''alice'') (Some ''s1'')
     = Some \<lparr> provider_memory_id = ''Project_gameplay_597edeef-XOt1OmF0Zd'',
              provider_actor_id = ''nw'',
              provider_session_id = Some ''s1'',
              provider_namespace = ''project/gameplay/nw/semantic'' \<rparr>
   \<and> ''project/gameplay/nw/semantic'' \<noteq> ''project/'' @ ''nw'' @ ''/semantic''
   \<and> snd (invoke GameplayMemory ''Play.''
           (services_of quiet_client (namespace_call ''project/nw/semantic'')) world0
           (ask_project ''alice'') (Some ''s1''))
       = Inr (JObj [(''response'', JStr ''another namespace''), (''metrics'', JObj [])])
   \<and> snd (invoke LoreMemory ''Tell the lore.''
           (services_of quiet_client (namespace_call ''project/nw/semantic'')) world0
           (ask_project ''alice'') (Some ''s1''))
       = Inr (JObj [(''response'', JStr ''project memory''), (''metrics'', JObj [])])"
proof -
  let ?E = "services_of quiet_client (namespace_call ''project/nw/semantic'')"
  have g: "gameplay_provider (ask_project ''alice'') (Some ''s1'')
     = \<lparr> provider_memory_id = ''Project_gameplay_597edeef-XOt1OmF0Zd'',
         provider_actor_id = ''nw'',
         provider_session_id = Some ''s1'',
         provider_namespace = ''project/gameplay/nw/semantic'' \<rparr>"
    by (simp add: gameplay_provider_def ask_project_def get_default_def)
  have l: "provider_namespace (lore_provider (ask_project ''alice'') (Some ''s1''))
     = ''project/nw/semantic''"
    by (simp add: lore_provider_def ask_project_def get_default_def)
  have call: "snd (agent_call ?E p a u)
      = Inr (answer (if map_option provider_namespace p = Some ''project/nw/semantic''
                     then ''project memory'' else ''another namespace''))" for p a u
    by (simp add: services_of_def namespace_call_def)
  have "snd (invoke GameplayMemory ''Play.'' ?E world0 (ask_project ''alice'') (Some ''s1''))
       = Inr (JObj [(''response'', JStr ''another namespace''), (''metrics'', JObj [])])"
    by (simp add: memory_specialist_result(3) [OF services_reach_call] call g
        answer_text_answer)
  moreover
  have "snd (invoke LoreMemory ''Tell the lore.'' ?E world0 (ask_project ''alice'') (Some ''s1''))
       = Inr (JObj [(''response'', JStr ''project memory''), (''metrics'', JObj [])])"
    by (simp add: memory_specialist_result(1) [OF services_reach_call] call l
        answer_text_answer)
  ultimately show ?thesis by (simp add: g)
qed

end
